theory Spec2Isabelle
  imports Complex_Main "HOL-Library.Multiset"
begin

section \<open>Loan eligibility engine: the matching pipeline\<close>

text \<open>
  A shallow embedding of the matcher package (the three-stage pipeline of
  \<^verbatim>\<open>MatcherService\<close>), of \<^verbatim>\<open>models.MatchCandidate\<close> with its two methods, and of
  \<^verbatim>\<open>MatchRepository.SQLPrefilterMatches\<close>.

  Conventions of the embedding.
  \<^item> Go's \<^verbatim>\<open>int\<close> and \<^verbatim>\<open>int64\<close> are \<^typ>\<open>int\<close>; where the source subtracts or adds two
    integers the 64-bit wrap-around is written out with \<open>wrap64\<close>.
  \<^item> A \<^verbatim>\<open>float64\<close> that is read from a record (an income, a rate, an amount, a score) is a
    finite number, a \<^typ>\<open>real\<close>. A computed \<^verbatim>\<open>float64\<close> is a value of type \<open>float64\<close>: a
    finite number, one of the two infinities, or NaN, with the IEEE-754 rules for them. The
    sign of zero is not modelled.
  \<^item> The affordability test of Stage 2 decides by comparing two computed numbers, so there
    every operation rounds its exact result to the nearest binary64 number (\<open>rnd64\<close>,
    ties to even, overflow to infinity). In the two score functions arithmetic on finite
    numbers is exact: there only the division by zero is modelled, not the rounding.
  \<^item> A pointer that may be nil is an \<^typ>\<open>'a option\<close>; a Go pair \<^verbatim>\<open>(value, error)\<close> is a
    pair of options or a sum.
  \<^item> A function that can panic returns an option: \<open>None\<close> is the panic, which nothing in the
    program recovers from.
  \<^item> A counted \<^verbatim>\<open>for\<close> loop is a \<^const>\<open>fold\<close> over the list it ranges over, the loop
    variables being the accumulator; a loop that can be left early is a recursive function.
\<close>

subsection \<open>Numbers\<close>

definition wrap64 :: "int \<Rightarrow> int" where
  "wrap64 x = (x + 2 ^ 63) mod 2 ^ 64 - 2 ^ 63"

datatype float64 = Fin real | PosInf | NegInf | NaN

text \<open>Division of two finite numbers; a zero divisor gives an infinity or NaN.\<close>

definition fdiv :: "real \<Rightarrow> real \<Rightarrow> float64" where
  "fdiv a b =
     (if b \<noteq> 0 then Fin (a / b)
      else if 0 < a then PosInf
      else if a < 0 then NegInf
      else NaN)"

fun fadd :: "float64 \<Rightarrow> float64 \<Rightarrow> float64" where
  "fadd NaN _ = NaN"
| "fadd _ NaN = NaN"
| "fadd (Fin a) (Fin b) = Fin (a + b)"
| "fadd PosInf NegInf = NaN"
| "fadd NegInf PosInf = NaN"
| "fadd PosInf _ = PosInf"
| "fadd _ PosInf = PosInf"
| "fadd NegInf _ = NegInf"
| "fadd _ NegInf = NegInf"

fun fmul :: "float64 \<Rightarrow> float64 \<Rightarrow> float64" where
  "fmul NaN _ = NaN"
| "fmul _ NaN = NaN"
| "fmul (Fin a) (Fin b) = Fin (a * b)"
| "fmul (Fin a) PosInf = (if a = 0 then NaN else if 0 < a then PosInf else NegInf)"
| "fmul (Fin a) NegInf = (if a = 0 then NaN else if 0 < a then NegInf else PosInf)"
| "fmul PosInf (Fin b) = (if b = 0 then NaN else if 0 < b then PosInf else NegInf)"
| "fmul NegInf (Fin b) = (if b = 0 then NaN else if 0 < b then NegInf else PosInf)"
| "fmul PosInf PosInf = PosInf"
| "fmul NegInf NegInf = PosInf"
| "fmul PosInf NegInf = NegInf"
| "fmul NegInf PosInf = NegInf"

text \<open>The comparison \<^verbatim>\<open>a > b\<close>: false as soon as one side is NaN.\<close>

fun fgt :: "float64 \<Rightarrow> float64 \<Rightarrow> bool" where
  "fgt NaN _ = False"
| "fgt _ NaN = False"
| "fgt (Fin a) (Fin b) = (b < a)"
| "fgt PosInf PosInf = False"
| "fgt PosInf _ = True"
| "fgt _ PosInf = False"
| "fgt NegInf _ = False"
| "fgt _ NegInf = True"

text \<open>A score lies in the closed interval from 0 to 100 only if it is a finite number there.\<close>

fun in_0_100 :: "float64 \<Rightarrow> bool" where
  "in_0_100 (Fin x) = (0 \<le> x \<and> x \<le> 100)"
| "in_0_100 _ = False"

subsection \<open>Rounding to binary64\<close>

text \<open>
  A finite binary64 number is an integer multiple \<open>m * 2 ^ e\<close> with \<open>\<bar>m\<bar> < 2 ^ 53\<close> and
  \<open>- 1074 \<le> e\<close>, of magnitude below \<open>2 ^ 1024\<close>. Near \<open>x\<close> these numbers are spaced by two
  to the power \<open>exponent64 x - 52\<close>, where the exponent is that of the leading bit of \<open>x\<close>
  and at least \<open>- 1022\<close> (below that the numbers are subnormal and equally spaced).
\<close>

definition exponent64 :: "real \<Rightarrow> int" where
  "exponent64 x = max \<lfloor>log 2 \<bar>x\<bar>\<rfloor> (- 1022)"

text \<open>The nearest integer, the even one of the two when \<open>t\<close> lies half-way.\<close>

definition roundEven :: "real \<Rightarrow> int" where
  "roundEven t =
     (let f = \<lfloor>t\<rfloor>; d = t - of_int f
      in if d < 1 / 2 then f
         else if 1 / 2 < d then f + 1
         else if even f then f else f + 1)"

definition rnd64 :: "real \<Rightarrow> float64" where
  "rnd64 x =
     (if x = 0 then Fin 0
      else (let q = 2 powr of_int (exponent64 x - 52);
                y = of_int (roundEven (x / q)) * q
            in if 2 ^ 1024 \<le> \<bar>y\<bar> then (if 0 < x then PosInf else NegInf)
               else Fin y))"

text \<open>The operations of the machine: the exact result of two finite operands is rounded; the
  other cases follow the tables above.\<close>

fun fneg :: "float64 \<Rightarrow> float64" where
  "fneg (Fin a) = Fin (- a)"
| "fneg PosInf = NegInf"
| "fneg NegInf = PosInf"
| "fneg NaN = NaN"

definition mul64 :: "float64 \<Rightarrow> float64 \<Rightarrow> float64" where
  "mul64 a b = (case (a, b) of (Fin x, Fin y) \<Rightarrow> rnd64 (x * y) | _ \<Rightarrow> fmul a b)"

definition add64 :: "float64 \<Rightarrow> float64 \<Rightarrow> float64" where
  "add64 a b = (case (a, b) of (Fin x, Fin y) \<Rightarrow> rnd64 (x + y) | _ \<Rightarrow> fadd a b)"

definition sub64 :: "float64 \<Rightarrow> float64 \<Rightarrow> float64" where
  "sub64 a b = add64 a (fneg b)"

fun div64 :: "float64 \<Rightarrow> float64 \<Rightarrow> float64" where
  "div64 NaN _ = NaN"
| "div64 _ NaN = NaN"
| "div64 (Fin a) (Fin b) = (if b \<noteq> 0 then rnd64 (a / b) else fdiv a b)"
| "div64 (Fin a) PosInf = Fin 0"
| "div64 (Fin a) NegInf = Fin 0"
| "div64 PosInf (Fin b) = (if 0 \<le> b then PosInf else NegInf)"
| "div64 NegInf (Fin b) = (if 0 \<le> b then NegInf else PosInf)"
| "div64 PosInf _ = NaN"
| "div64 NegInf _ = NaN"

text \<open>
  The conversions \<^verbatim>\<open>float64(n)\<close> and \<^verbatim>\<open>int(x)\<close>. The second truncates towards zero; Go
  leaves its result open for NaN, the infinities and numbers outside the range of \<^verbatim>\<open>int\<close>,
  which no theorem below relies on.
\<close>

definition i2f :: "int \<Rightarrow> float64" where
  "i2f n = rnd64 (of_int n)"

fun f2i :: "float64 \<Rightarrow> int" where
  "f2i (Fin x) = (if 0 \<le> x then \<lfloor>x\<rfloor> else \<lceil>x\<rceil>)"
| "f2i _ = 0"

subsection \<open>Data model\<close>

type_synonym EmploymentStatus = string
type_synonym MatchStatus = string
type_synonym MatchSource = string

definition MatchStatusPending :: MatchStatus where "MatchStatusPending = ''pending''"
definition MatchStatusEligible :: MatchStatus where "MatchStatusEligible = ''eligible''"
definition MatchStatusNotEligible :: MatchStatus where "MatchStatusNotEligible = ''not_eligible''"
definition MatchStatusNotified :: MatchStatus where "MatchStatusNotified = ''notified''"
definition MatchStatusExpired :: MatchStatus where "MatchStatusExpired = ''expired''"

definition MatchSourceSQLFilter :: MatchSource where "MatchSourceSQLFilter = ''sql_filter''"
definition MatchSourceLogicFilter :: MatchSource where "MatchSourceLogicFilter = ''logic_filter''"
definition MatchSourceLLMCheck :: MatchSource where "MatchSourceLLMCheck = ''llm_check''"
definition MatchSourceManual :: MatchSource where "MatchSourceManual = ''manual''"

text \<open>\<^verbatim>\<open>models.User\<close> (the timestamps are left out: no function below reads them).\<close>

record User =
  u_ID :: int
  u_UserID :: string
  u_Email :: string
  u_MonthlyIncome :: real
  u_CreditScore :: int
  u_EmploymentStatus :: EmploymentStatus
  u_Age :: int
  u_BatchID :: string
  u_IsActive :: bool

text \<open>\<^verbatim>\<open>models.LoanProduct\<close> (without product type, fee, URL and timestamps).\<close>

record LoanProduct =
  p_ID :: int
  p_ProductName :: string
  p_ProviderName :: string
  p_InterestRateMin :: real
  p_InterestRateMax :: real
  p_LoanAmountMin :: real
  p_LoanAmountMax :: real
  p_TenureMinMonths :: int
  p_TenureMaxMonths :: int
  p_MinMonthlyIncome :: real
  p_MinCreditScore :: int
  p_MaxCreditScore :: "int option"
  p_MinAge :: int
  p_MaxAge :: int
  p_AcceptedEmploymentStatus :: "EmploymentStatus list"
  p_IsActive :: bool

text \<open>\<^verbatim>\<open>matcher.MatchCandidate\<close>: the candidate that travels through the pipeline.\<close>

record MatchCandidate =
  c_UserID :: int
  c_ProductID :: int
  c_EligibilityScore :: real
  c_IncomeEligible :: bool
  c_CreditScoreEligible :: bool
  c_AgeEligible :: bool
  c_EmploymentEligible :: bool
  c_LLMCheckPassed :: bool
  c_LLMReasoning :: string
  c_LLMConfidence :: real

text \<open>\<^verbatim>\<open>models.MatchCandidate\<close>: a row of the SQL pre-filter, user and product side by side.\<close>

record SQLCandidate =
  mc_UserDBID :: int
  mc_UserExternalID :: string
  mc_Email :: string
  mc_MonthlyIncome :: real
  mc_CreditScore :: int
  mc_EmploymentStatus :: EmploymentStatus
  mc_Age :: int
  mc_ProductID :: int
  mc_ProductName :: string
  mc_ProviderName :: string
  mc_MinMonthlyIncome :: real
  mc_MinCreditScore :: int
  mc_MaxCreditScore :: "int option"
  mc_MinAge :: int
  mc_MaxAge :: int
  mc_AcceptedEmploymentStatus :: "EmploymentStatus list"
  mc_InterestRateMin :: real
  mc_InterestRateMax :: real

text \<open>\<^verbatim>\<open>models.MatchCreate\<close>: what the pipeline hands to the match repository.\<close>

record MatchCreate =
  m_UserID :: int
  m_ProductID :: int
  m_MatchScore :: real
  m_Status :: MatchStatus
  m_MatchSource :: MatchSource
  m_IncomeEligible :: bool
  m_CreditScoreEligible :: bool
  m_AgeEligible :: bool
  m_EmploymentEligible :: bool
  m_LLMAnalysis :: string
  m_LLMConfidence :: "real option"
  m_BatchID :: string

record LLMResponse =
  r_Qualified :: bool
  r_Confidence :: real
  r_Reasoning :: string
  r_RiskFactors :: "string list"

text \<open>An error value: a message, or a message wrapping an earlier error (\<^verbatim>\<open>%w\<close>).\<close>

datatype error = Error string | Wrap string error

record MatchingResult =
  res_TotalUsers :: nat
  res_TotalProducts :: nat
  res_TotalPairs :: nat
  res_SQLPrefilterPassed :: nat
  res_LogicFilterPassed :: nat
  res_LLMCheckPassed :: nat
  res_FinalMatches :: nat
  res_Errors :: "error list"

subsection \<open>Stage 1 in memory: \<^verbatim>\<open>sqlPrefilter\<close>\<close>

text \<open>The four flags, as the body of the double loop computes them.\<close>

definition incomeEligible :: "User \<Rightarrow> LoanProduct \<Rightarrow> bool" where
  "incomeEligible user product = (u_MonthlyIncome user \<ge> p_MinMonthlyIncome product)"

definition creditScoreEligible :: "User \<Rightarrow> LoanProduct \<Rightarrow> bool" where
  "creditScoreEligible user product = (u_CreditScore user \<ge> p_MinCreditScore product)"

definition ageEligible :: "User \<Rightarrow> LoanProduct \<Rightarrow> bool" where
  "ageEligible user product =
     (u_Age user \<ge> p_MinAge product \<and> u_Age user \<le> p_MaxAge product)"

text \<open>
  The search of the accepted statuses: the flag starts false and the loop leaves at the
  first status equal to the user's.
\<close>

fun employmentLoop :: "EmploymentStatus list \<Rightarrow> EmploymentStatus \<Rightarrow> bool" where
  "employmentLoop [] status = False"
| "employmentLoop (empStatus # rest) status =
     (if empStatus = status then True else employmentLoop rest status)"

definition employmentEligible :: "User \<Rightarrow> LoanProduct \<Rightarrow> bool" where
  "employmentEligible user product =
     (let found = employmentLoop (p_AcceptedEmploymentStatus product) (u_EmploymentStatus user)
      in if length (p_AcceptedEmploymentStatus product) = 0 then True else found)"

text \<open>The candidate appended for a passing pair; the other fields keep Go's zero values.\<close>

definition newCandidate :: "User \<Rightarrow> LoanProduct \<Rightarrow> MatchCandidate" where
  "newCandidate user product =
     \<lparr> c_UserID = u_ID user, c_ProductID = p_ID product, c_EligibilityScore = 0,
       c_IncomeEligible = incomeEligible user product,
       c_CreditScoreEligible = creditScoreEligible user product,
       c_AgeEligible = ageEligible user product,
       c_EmploymentEligible = employmentEligible user product,
       c_LLMCheckPassed = False, c_LLMReasoning = [], c_LLMConfidence = 0 \<rparr>"

definition sqlPrefilterBody :: "User \<Rightarrow> LoanProduct \<Rightarrow> MatchCandidate list \<Rightarrow> MatchCandidate list" where
  "sqlPrefilterBody user product candidates =
     (if incomeEligible user product \<and> creditScoreEligible user product
         \<and> ageEligible user product \<and> employmentEligible user product
      then candidates @ [newCandidate user product]
      else candidates)"

definition sqlPrefilter :: "User list \<Rightarrow> LoanProduct list \<Rightarrow> MatchCandidate list" where
  "sqlPrefilter users products =
     fold (\<lambda>user candidates. fold (sqlPrefilterBody user) products candidates) users []"

subsection \<open>Stage 1 on a pre-filter row: \<^verbatim>\<open>IsFullyEligible\<close>\<close>

definition IsFullyEligible :: "SQLCandidate \<Rightarrow> bool" where
  "IsFullyEligible c =
     (if mc_MonthlyIncome c < mc_MinMonthlyIncome c then False
      else if mc_CreditScore c < mc_MinCreditScore c then False
      else if (case mc_MaxCreditScore c of None \<Rightarrow> False | Some mx \<Rightarrow> mc_CreditScore c > mx)
        then False
      else if mc_Age c < mc_MinAge c \<or> mc_Age c > mc_MaxAge c then False
      else if length (mc_AcceptedEmploymentStatus c) > 0
              \<and> \<not> employmentLoop (mc_AcceptedEmploymentStatus c) (mc_EmploymentStatus c)
        then False
      else True)"

subsection \<open>Stage 1 in the database: the query of \<^verbatim>\<open>SQLPrefilterMatches\<close>\<close>

text \<open>
  The tables \<^verbatim>\<open>users\<close> and \<^verbatim>\<open>loan_products\<close> are lists of rows. The query is a cross
  join filtered by its \<^verbatim>\<open>WHERE\<close> clause; \<^verbatim>\<open>p.max_credit_score IS NULL\<close> is \<open>None\<close>; the
  clause on the batch is added only for a non-empty batch identifier. The clause has no
  condition on the employment status.
\<close>

definition sqlWhere :: "string \<Rightarrow> User \<Rightarrow> LoanProduct \<Rightarrow> bool" where
  "sqlWhere batchID u p =
     (u_IsActive u \<and> p_IsActive p
      \<and> u_MonthlyIncome u \<ge> p_MinMonthlyIncome p
      \<and> u_CreditScore u \<ge> p_MinCreditScore p
      \<and> (case p_MaxCreditScore p of None \<Rightarrow> True | Some mx \<Rightarrow> u_CreditScore u \<le> mx)
      \<and> u_Age u \<ge> p_MinAge p
      \<and> u_Age u \<le> p_MaxAge p
      \<and> (batchID = [] \<or> u_BatchID u = batchID))"

text \<open>The columns of a row as they come out of a scan, the accepted statuses being those
  of the product.\<close>

definition scanRow :: "User \<Rightarrow> LoanProduct \<Rightarrow> SQLCandidate" where
  "scanRow u p =
     \<lparr> mc_UserDBID = u_ID u, mc_UserExternalID = u_UserID u, mc_Email = u_Email u,
       mc_MonthlyIncome = u_MonthlyIncome u, mc_CreditScore = u_CreditScore u,
       mc_EmploymentStatus = u_EmploymentStatus u, mc_Age = u_Age u,
       mc_ProductID = p_ID p, mc_ProductName = p_ProductName p,
       mc_ProviderName = p_ProviderName p, mc_MinMonthlyIncome = p_MinMonthlyIncome p,
       mc_MinCreditScore = p_MinCreditScore p, mc_MaxCreditScore = p_MaxCreditScore p,
       mc_MinAge = p_MinAge p, mc_MaxAge = p_MaxAge p,
       mc_AcceptedEmploymentStatus = p_AcceptedEmploymentStatus p,
       mc_InterestRateMin = p_InterestRateMin p, mc_InterestRateMax = p_InterestRateMax p \<rparr>"

text \<open>
  The rows of the query: the cross join, filtered, with \<^verbatim>\<open>ORDER BY u.id, p.id\<close> (the
  identifiers are primary keys).
\<close>

definition sqlRows :: "User list \<Rightarrow> LoanProduct list \<Rightarrow> string \<Rightarrow> (User \<times> LoanProduct) list" where
  "sqlRows usersTable productsTable batchID =
     concat (map (\<lambda>u. concat (map (\<lambda>p. if sqlWhere batchID u p then [(u, p)] else [])
                                 (sort_key p_ID productsTable)))
                 (sort_key u_ID usersTable))"

text \<open>
  The loop over the rows. \<^verbatim>\<open>rows.Scan\<close> belongs to the database driver: \<open>rowsScan\<close> gives,
  for a row, the error of the scan or the text it stores in \<^verbatim>\<open>empStatusJSON\<close> (the column
  \<^verbatim>\<open>accepted_employment_status\<close> scanned into a string). The first scan that fails ends
  the function with its error and without rows. \<open>unmarshal\<close> is \<^verbatim>\<open>json.Unmarshal\<close> into the
  list of accepted statuses; when it fails the list is empty.
\<close>

fun scanLoop ::
  "(User \<Rightarrow> LoanProduct \<Rightarrow> error + string) \<Rightarrow> (string \<Rightarrow> error + EmploymentStatus list)
     \<Rightarrow> (User \<times> LoanProduct) list \<Rightarrow> SQLCandidate list \<Rightarrow> error + SQLCandidate list" where
  "scanLoop rowsScan unmarshal [] candidates = Inr candidates"
| "scanLoop rowsScan unmarshal ((u, p) # rows) candidates =
     (case rowsScan u p of
        Inl err \<Rightarrow> Inl (Wrap ''failed to scan candidate'' err)
      | Inr empStatusJSON \<Rightarrow>
          (let accepted = (if empStatusJSON \<noteq> []
                           then (case unmarshal empStatusJSON of Inl _ \<Rightarrow> [] | Inr xs \<Rightarrow> xs)
                           else [])
           in scanLoop rowsScan unmarshal rows
                (candidates @ [(scanRow u p)\<lparr>mc_AcceptedEmploymentStatus := accepted\<rparr>])))"

text \<open>\<open>queryErr\<close> is the error of \<^verbatim>\<open>QueryContext\<close>, if the query itself fails.\<close>

definition SQLPrefilterMatches ::
  "error option \<Rightarrow> (User \<Rightarrow> LoanProduct \<Rightarrow> error + string) \<Rightarrow> (string \<Rightarrow> error + EmploymentStatus list)
     \<Rightarrow> User list \<Rightarrow> LoanProduct list \<Rightarrow> string \<Rightarrow> error + SQLCandidate list" where
  "SQLPrefilterMatches queryErr rowsScan unmarshal usersTable productsTable batchID =
     (case queryErr of
        Some err \<Rightarrow> Inl (Wrap ''failed to execute SQL prefilter'' err)
      | None \<Rightarrow> scanLoop rowsScan unmarshal (sqlRows usersTable productsTable batchID) [])"

text \<open>The pairs of identifiers a Stage-1 result stands for.\<close>

definition memoryPairs :: "MatchCandidate list \<Rightarrow> (int \<times> int) set" where
  "memoryPairs cs = set (map (\<lambda>c. (c_UserID c, c_ProductID c)) cs)"

definition sqlPairs :: "SQLCandidate list \<Rightarrow> (int \<times> int) set" where
  "sqlPairs cs = set (map (\<lambda>c. (mc_UserDBID c, mc_ProductID c)) cs)"

text \<open>The pairs the database path accepts: none when it returns an error.\<close>

definition sqlAccepted :: "error + SQLCandidate list \<Rightarrow> (int \<times> int) set" where
  "sqlAccepted result = (case result of Inl err \<Rightarrow> {} | Inr cs \<Rightarrow> sqlPairs cs)"

subsection \<open>Stage 2: affordability and score\<close>

text \<open>
  \<^verbatim>\<open>pow\<close> multiplies \<^verbatim>\<open>int(exp)\<close> times, rounding each product; a count that is not
  positive leaves the loop at once.
\<close>

fun powLoop :: "float64 \<Rightarrow> nat \<Rightarrow> float64 \<Rightarrow> float64" where
  "powLoop base 0 result = result"
| "powLoop base (Suc k) result = powLoop base k (mul64 result base)"

definition pow :: "float64 \<Rightarrow> float64 \<Rightarrow> float64" where
  "pow base e = powLoop base (nat (f2i e)) (Fin 1)"

text \<open>The local variables \<^verbatim>\<open>maxEMI\<close> and \<^verbatim>\<open>monthlyRate\<close> of \<^verbatim>\<open>passesBusinessRules\<close>.\<close>

definition maxEMI :: "User \<Rightarrow> float64" where
  "maxEMI user = mul64 (Fin (u_MonthlyIncome user)) (Fin 0.5)"

definition monthlyRate :: "LoanProduct \<Rightarrow> float64" where
  "monthlyRate product = div64 (div64 (Fin (p_InterestRateMax product)) (Fin 100)) (Fin 12)"

definition passesBusinessRules :: "User \<Rightarrow> LoanProduct \<Rightarrow> bool" where
  "passesBusinessRules user product =
     (let tenure = i2f (p_TenureMaxMonths product);
          tenure = (if tenure = Fin 0 then Fin 60 else tenure)
      in if fgt (monthlyRate product) (Fin 0)
         then (let emiForMinAmount =
                     div64 (mul64 (mul64 (Fin (p_LoanAmountMin product)) (monthlyRate product))
                                  (pow (add64 (Fin 1) (monthlyRate product)) tenure))
                           (sub64 (pow (add64 (Fin 1) (monthlyRate product)) tenure) (Fin 1))
               in if fgt emiForMinAmount (mul64 (maxEMI user) (Fin 2)) then False else True)
         else True)"

text \<open>
  The installment formula of the specification, \<open>P * r * (1 + r) ^ n / ((1 + r) ^ n - 1)\<close>,
  evaluated from left to right in binary64, the power being a repeated product.
\<close>

primrec power64 :: "float64 \<Rightarrow> nat \<Rightarrow> float64" where
  "power64 b 0 = Fin 1"
| "power64 b (Suc n) = mul64 (power64 b n) b"

definition installment64 :: "real \<Rightarrow> float64 \<Rightarrow> nat \<Rightarrow> float64" where
  "installment64 P r n =
     div64 (mul64 (mul64 (Fin P) r) (power64 (add64 (Fin 1) r) n))
           (sub64 (power64 (add64 (Fin 1) r) n) (Fin 1))"

definition abs_f64 :: "real \<Rightarrow> real" where
  "abs_f64 x = (if x < 0 then - x else x)"

text \<open>
  \<^verbatim>\<open>calculateEligibilityScore\<close>. Every division is guarded by a test that its divisor is
  positive, so the score stays a finite number.
\<close>

definition creditComponent :: "User \<Rightarrow> LoanProduct \<Rightarrow> real" where
  "creditComponent user product =
     (let creditScoreExcess = real_of_int (wrap64 (u_CreditScore user - p_MinCreditScore product));
          creditScoreRange = real_of_int (wrap64 (900 - p_MinCreditScore product))
      in if creditScoreRange > 0
         then (let c = (creditScoreExcess / creditScoreRange) * 40;
                   c = (if c > 40 then 40 else c);
                   c = (if c < 0 then 0 else c)
               in c)
         else 0)"

definition incomeComponent :: "User \<Rightarrow> LoanProduct \<Rightarrow> real" where
  "incomeComponent user product =
     (let incomeExcess = u_MonthlyIncome user - p_MinMonthlyIncome product;
          incomeRange = p_MinMonthlyIncome product * 2
      in if incomeRange > 0
         then (let c = (incomeExcess / incomeRange) * 30;
                   c = (if c > 30 then 30 else c);
                   c = (if c < 0 then 0 else c)
               in c)
         else 0)"

definition ageComponent :: "User \<Rightarrow> LoanProduct \<Rightarrow> real" where
  "ageComponent user product =
     (let ageRange = real_of_int (wrap64 (p_MaxAge product - p_MinAge product))
      in if ageRange > 0
         then (let ageMidpoint = real_of_int (wrap64 (p_MinAge product + p_MaxAge product)) / 2;
                   ageDiff = abs_f64 (real_of_int (u_Age user) - ageMidpoint);
                   c = (1 - ageDiff / (ageRange / 2)) * 10;
                   c = (if c < 0 then 0 else c)
               in c)
         else 0)"

definition calculateEligibilityScore :: "User \<Rightarrow> LoanProduct \<Rightarrow> real" where
  "calculateEligibilityScore user product =
     (let score = 0;
          score = score + creditComponent user product;
          score = score + incomeComponent user product;
          score = score + 20;
          score = score + ageComponent user product
      in score)"

text \<open>The two look-up tables of \<^verbatim>\<open>logicFilter\<close> and \<^verbatim>\<open>llmCheck\<close>: a later entry replaces an
  earlier one with the same identifier.\<close>

definition userMap :: "User list \<Rightarrow> (int \<rightharpoonup> User)" where
  "userMap users = fold (\<lambda>u m. m(u_ID u \<mapsto> u)) users Map.empty"

definition productMap :: "LoanProduct list \<Rightarrow> (int \<rightharpoonup> LoanProduct)" where
  "productMap products = fold (\<lambda>p m. m(p_ID p \<mapsto> p)) products Map.empty"

definition logicFilterBody ::
  "(int \<rightharpoonup> User) \<Rightarrow> (int \<rightharpoonup> LoanProduct) \<Rightarrow> MatchCandidate \<Rightarrow> MatchCandidate list \<Rightarrow> MatchCandidate list" where
  "logicFilterBody um pm c filtered =
     (case (um (c_UserID c), pm (c_ProductID c)) of
        (Some user, Some product) \<Rightarrow>
          if \<not> passesBusinessRules user product then filtered
          else filtered @ [c\<lparr>c_EligibilityScore := calculateEligibilityScore user product\<rparr>]
      | _ \<Rightarrow> filtered)"

definition logicFilter :: "MatchCandidate list \<Rightarrow> User list \<Rightarrow> LoanProduct list \<Rightarrow> MatchCandidate list" where
  "logicFilter candidates users products =
     fold (logicFilterBody (userMap users) (productMap products)) candidates []"

subsection \<open>The second scoring path: \<^verbatim>\<open>CalculateMatchScore\<close>\<close>

text \<open>
  The income ratio divides by the minimum income without a test, so the running score is a
  \<open>float64\<close>: the ratio is an infinity or NaN when the minimum income is zero.
\<close>

definition CalculateMatchScore :: "SQLCandidate \<Rightarrow> float64" where
  "CalculateMatchScore c =
     (let score = Fin 0;
          maxScore = Fin 100;
          score = (if mc_MonthlyIncome c \<ge> mc_MinMonthlyIncome c
                   then (let incomeRatio = fdiv (mc_MonthlyIncome c) (mc_MinMonthlyIncome c);
                             incomeRatio = (if fgt incomeRatio (Fin 2) then Fin 2 else incomeRatio)
                         in fadd score (fmul (Fin 15) incomeRatio))
                   else score);
          score = (if mc_CreditScore c \<ge> mc_MinCreditScore c
                   then (let normalizedScore = real_of_int (wrap64 (mc_CreditScore c - 300)) / 600
                         in fadd score (Fin (40 * normalizedScore)))
                   else score);
          score = (if mc_Age c \<ge> mc_MinAge c \<and> mc_Age c \<le> mc_MaxAge c
                   then fadd score (Fin 15) else score);
          score = (if length (mc_AcceptedEmploymentStatus c) > 0
                   then (if employmentLoop (mc_AcceptedEmploymentStatus c) (mc_EmploymentStatus c)
                         then fadd score (Fin 15) else score)
                   else fadd score (Fin 15));
          score = (if fgt score maxScore then maxScore else score)
      in score)"

subsection \<open>The ranker: \<^verbatim>\<open>selectTopCandidates\<close>\<close>

text \<open>
  The body of the inner loop exchanges the neighbours at \<open>j\<close> and \<open>j + 1\<close> when the left one
  has the strictly smaller score. The limit is a natural number: the only caller passes
  the constant 100.
\<close>

definition bubbleStep :: "nat \<Rightarrow> MatchCandidate list \<Rightarrow> MatchCandidate list" where
  "bubbleStep j candidates =
     (if c_EligibilityScore (candidates ! j) < c_EligibilityScore (candidates ! (j + 1))
      then candidates[j := candidates ! (j + 1), j + 1 := candidates ! j]
      else candidates)"

definition bubbleInner :: "nat \<Rightarrow> MatchCandidate list \<Rightarrow> MatchCandidate list" where
  "bubbleInner i candidates = fold bubbleStep [0 ..< length candidates - i - 1] candidates"

definition bubbleSort :: "MatchCandidate list \<Rightarrow> MatchCandidate list" where
  "bubbleSort candidates = fold bubbleInner [0 ..< length candidates - 1] candidates"

definition selectTopCandidates :: "MatchCandidate list \<Rightarrow> nat \<Rightarrow> MatchCandidate list" where
  "selectTopCandidates candidates limit =
     (if length candidates \<le> limit then candidates
      else take limit (bubbleSort candidates))"

subsection \<open>Stage 3: \<^verbatim>\<open>EvaluateMatch\<close> and \<^verbatim>\<open>llmCheck\<close>\<close>

text \<open>
  A decoded JSON value, as \<^verbatim>\<open>encoding/json\<close> stores it in an \<^verbatim>\<open>interface{}\<close>: nil, a
  boolean, a number, a string, a slice or a map. A map is a list of keys and values; a key
  that is missing reads as nil.
\<close>

datatype json =
  JNull | JBool bool | JNumber real | JString string | JArray "json list"
  | JObject "(string \<times> json) list"

definition lookupKey :: "(string \<times> json) list \<Rightarrow> string \<Rightarrow> json" where
  "lookupKey obj key = (case map_of obj key of None \<Rightarrow> JNull | Some v \<Rightarrow> v)"

text \<open>\<^verbatim>\<open>strings.Index\<close> and \<^verbatim>\<open>strings.LastIndex\<close> for a single character: the position, or -1.\<close>

definition stringsIndex :: "string \<Rightarrow> char \<Rightarrow> int" where
  "stringsIndex text ch =
     (if ch \<in> set text then int (length (takeWhile (\<lambda>x. x \<noteq> ch) text)) else - 1)"

definition stringsLastIndex :: "string \<Rightarrow> char \<Rightarrow> int" where
  "stringsLastIndex text ch =
     (if ch \<in> set text
      then int (length text) - 1 - int (length (takeWhile (\<lambda>x. x \<noteq> ch) (rev text)))
      else - 1)"

text \<open>
  \<^verbatim>\<open>parseResponse\<close>. The first type assertion is checked (\<^verbatim>\<open>candidates, ok := ...\<close>); the
  others are not and panic when the value has another type; the slice expression
  \<^verbatim>\<open>text[start : end+1]\<close> panics when \<open>end + 1 < start\<close>. \<open>unmarshal\<close> is \<^verbatim>\<open>json.Unmarshal\<close>
  into an \<^verbatim>\<open>LLMResponse\<close>.
\<close>

definition extractResponse :: "(string \<Rightarrow> error + LLMResponse) \<Rightarrow> string \<Rightarrow> (error + LLMResponse) option" where
  "extractResponse unmarshal text =
     (let start = stringsIndex text CHR ''{'';
          end' = stringsLastIndex text CHR ''}''
      in if start = - 1 \<or> end' = - 1 then Some (Inl (Error ''no JSON found in response''))
         else if end' + 1 < start then None
         else (case unmarshal (take (nat (end' + 1 - start)) (drop (nat start) text)) of
                 Inl err \<Rightarrow> Some (Inl (Wrap ''failed to parse JSON'' err))
               | Inr response \<Rightarrow> Some (Inr response)))"

definition parseResponse ::
  "(string \<Rightarrow> error + LLMResponse) \<Rightarrow> (string \<times> json) list \<Rightarrow> (error + LLMResponse) option" where
  "parseResponse unmarshal result =
     (case lookupKey result ''candidates'' of
        JArray candidates \<Rightarrow>
          if length candidates = 0 then Some (Inl (Error ''no candidates in response''))
          else (case candidates ! 0 of
                  JObject candidate \<Rightarrow>
                    (case lookupKey candidate ''content'' of
                       JObject content \<Rightarrow>
                         (case lookupKey content ''parts'' of
                            JArray parts \<Rightarrow>
                              if length parts = 0 then Some (Inl (Error ''no parts in response''))
                              else (case parts ! 0 of
                                      JObject part \<Rightarrow>
                                        (case lookupKey part ''text'' of
                                           JString text \<Rightarrow> extractResponse unmarshal text
                                         | _ \<Rightarrow> None)
                                    | _ \<Rightarrow> None)
                          | _ \<Rightarrow> None)
                     | _ \<Rightarrow> None)
                | _ \<Rightarrow> None)
      | _ \<Rightarrow> Some (Inl (Error ''no candidates in response'')))"

text \<open>
  \<^verbatim>\<open>EvaluateMatch\<close> answers by itself when the client has no API key. Otherwise it builds the
  prompt, sends the request and decodes the body of the reply; that part reaches outside
  the program and is the parameter \<open>transport\<close>, which gives the error the function returns
  (request failed, status other than 200, body not JSON) or the decoded reply, which is
  then handed to \<^verbatim>\<open>parseResponse\<close>.
\<close>

definition EvaluateMatch ::
  "string \<Rightarrow> (User \<Rightarrow> LoanProduct \<Rightarrow> error + (string \<times> json) list)
     \<Rightarrow> (string \<Rightarrow> error + LLMResponse) \<Rightarrow> User \<Rightarrow> LoanProduct \<Rightarrow> (error + LLMResponse) option" where
  "EvaluateMatch apiKey transport unmarshal user product =
     (if apiKey = []
      then Some (Inr \<lparr> r_Qualified = True, r_Confidence = 0.7,
                       r_Reasoning = ''LLM check skipped - no API key configured'',
                       r_RiskFactors = [] \<rparr>)
      else (case transport user product of
              Inl err \<Rightarrow> Some (Inl err)
            | Inr result \<Rightarrow> parseResponse unmarshal result))"

text \<open>The loop state of \<^verbatim>\<open>llmCheck\<close> is the list \<open>passed\<close> and the last error seen; a panic of
  \<^verbatim>\<open>EvaluateMatch\<close> ends the loop and the function.\<close>

definition llmCheckBody ::
  "string \<Rightarrow> (User \<Rightarrow> LoanProduct \<Rightarrow> error + (string \<times> json) list)
     \<Rightarrow> (string \<Rightarrow> error + LLMResponse) \<Rightarrow> (int \<rightharpoonup> User) \<Rightarrow> (int \<rightharpoonup> LoanProduct)
     \<Rightarrow> MatchCandidate \<Rightarrow> MatchCandidate list \<times> error option
     \<Rightarrow> (MatchCandidate list \<times> error option) option" where
  "llmCheckBody apiKey transport unmarshal um pm c st =
     (case st of (passed, lastErr) \<Rightarrow>
        (case (um (c_UserID c), pm (c_ProductID c)) of
           (Some user, Some product) \<Rightarrow>
             (case EvaluateMatch apiKey transport unmarshal user product of
                None \<Rightarrow> None
              | Some (Inl err) \<Rightarrow>
                  if c_EligibilityScore c \<ge> 60
                  then Some (passed @ [c\<lparr>c_LLMCheckPassed := True,
                                      c_LLMReasoning := ''LLM check skipped due to API error, high score approved''\<rparr>],
                             Some err)
                  else Some (passed, Some err)
              | Some (Inr response) \<Rightarrow>
                  (let c' = c\<lparr>c_LLMCheckPassed := r_Qualified response,
                               c_LLMReasoning := r_Reasoning response,
                               c_LLMConfidence := r_Confidence response\<rparr>
                   in if r_Qualified response then Some (passed @ [c'], lastErr)
                      else Some (passed, lastErr)))
         | _ \<Rightarrow> Some (passed, lastErr)))"

fun llmCheckLoop ::
  "(MatchCandidate \<Rightarrow> MatchCandidate list \<times> error option \<Rightarrow> (MatchCandidate list \<times> error option) option)
     \<Rightarrow> MatchCandidate list \<Rightarrow> MatchCandidate list \<times> error option
     \<Rightarrow> (MatchCandidate list \<times> error option) option" where
  "llmCheckLoop body [] st = Some st"
| "llmCheckLoop body (c # cs) st =
     (case body c st of None \<Rightarrow> None | Some st' \<Rightarrow> llmCheckLoop body cs st')"

definition llmCheck ::
  "string \<Rightarrow> (User \<Rightarrow> LoanProduct \<Rightarrow> error + (string \<times> json) list)
     \<Rightarrow> (string \<Rightarrow> error + LLMResponse) \<Rightarrow> MatchCandidate list \<Rightarrow> User list
     \<Rightarrow> LoanProduct list \<Rightarrow> (MatchCandidate list \<times> error option) option" where
  "llmCheck apiKey transport unmarshal candidates users products =
     llmCheckLoop (llmCheckBody apiKey transport unmarshal (userMap users) (productMap products))
       candidates ([], None)"

subsection \<open>Match records: \<^verbatim>\<open>createMatches\<close>\<close>

definition newMatch :: "MatchCandidate \<Rightarrow> MatchCreate" where
  "newMatch c =
     (let llmConfidence = (if c_LLMConfidence c > 0 then Some (c_LLMConfidence c) else None)
      in \<lparr> m_UserID = c_UserID c, m_ProductID = c_ProductID c,
           m_MatchScore = c_EligibilityScore c,
           m_Status = MatchStatusEligible, m_MatchSource = MatchSourceLLMCheck,
           m_IncomeEligible = c_IncomeEligible c,
           m_CreditScoreEligible = c_CreditScoreEligible c,
           m_AgeEligible = c_AgeEligible c,
           m_EmploymentEligible = c_EmploymentEligible c,
           m_LLMAnalysis = c_LLMReasoning c, m_LLMConfidence = llmConfidence,
           m_BatchID = [] \<rparr>)"

text \<open>The slice is allocated with one nil entry per candidate, then filled by index.\<close>

definition createMatches :: "MatchCandidate list \<Rightarrow> MatchCreate option list" where
  "createMatches candidates =
     fold (\<lambda>i matches. matches[i := Some (newMatch (candidates ! i))])
          [0 ..< length candidates] (replicate (length candidates) None)"

subsection \<open>The orchestrator: \<^verbatim>\<open>ProcessNewUsers\<close>\<close>

text \<open>
  The repositories are parameters: \<open>getByIDs\<close> and \<open>getAllActive\<close> give the rows or the
  error of the query, \<open>bulkInsert\<close> the numbers of inserted and failed rows and the error
  of the transaction. The result is Go's pair of a summary pointer and an error, or \<open>None\<close>
  when Stage 3 panics. The processing time is not part of the model.
\<close>

definition emptyResult :: MatchingResult where
  "emptyResult =
     \<lparr> res_TotalUsers = 0, res_TotalProducts = 0, res_TotalPairs = 0,
       res_SQLPrefilterPassed = 0, res_LogicFilterPassed = 0, res_LLMCheckPassed = 0,
       res_FinalMatches = 0, res_Errors = [] \<rparr>"

definition ProcessNewUsers ::
  "(int list \<Rightarrow> error + User list) \<Rightarrow> (error + LoanProduct list) \<Rightarrow> string
     \<Rightarrow> (User \<Rightarrow> LoanProduct \<Rightarrow> error + (string \<times> json) list)
     \<Rightarrow> (string \<Rightarrow> error + LLMResponse)
     \<Rightarrow> (MatchCreate option list \<Rightarrow> nat \<times> nat \<times> error option)
     \<Rightarrow> int list \<Rightarrow> (MatchingResult option \<times> error option) option" where
  "ProcessNewUsers getByIDs getAllActive apiKey transport unmarshal bulkInsert userIDs =
     (let result = emptyResult in
      case getByIDs userIDs of
        Inl err \<Rightarrow> Some (None, Some (Wrap ''failed to get users'' err))
      | Inr users \<Rightarrow>
         (let result = result\<lparr>res_TotalUsers := length users\<rparr> in
          case getAllActive of
            Inl err \<Rightarrow> Some (None, Some (Wrap ''failed to get products'' err))
          | Inr products \<Rightarrow>
             (let result = result\<lparr>res_TotalProducts := length products,
                                   res_TotalPairs := length users * length products\<rparr>;
                  candidates = sqlPrefilter users products;
                  result = result\<lparr>res_SQLPrefilterPassed := length candidates\<rparr>;
                  candidates = logicFilter candidates users products;
                  result = result\<lparr>res_LogicFilterPassed := length candidates\<rparr>;
                  topCandidates = selectTopCandidates candidates 100
              in case llmCheck apiKey transport unmarshal topCandidates users products of
                   None \<Rightarrow> None
                 | Some (finalCandidates, llmErr) \<Rightarrow>
                    (let result = (case llmErr of
                                     Some err \<Rightarrow> result\<lparr>res_Errors := res_Errors result @ [err]\<rparr>
                                   | None \<Rightarrow> result);
                         result = result\<lparr>res_LLMCheckPassed := length finalCandidates\<rparr>;
                         matches = createMatches finalCandidates
                     in case snd (snd (bulkInsert matches)) of
                          Some err \<Rightarrow> Some (None, Some (Wrap ''failed to save matches'' err))
                        | None \<Rightarrow>
                            Some (Some (result\<lparr>res_FinalMatches := length matches\<rparr>), None)))))"

subsection \<open>Concrete inputs\<close>

text \<open>The applicant and the product of the specification's scenarios, and variants of them.\<close>

definition applicant :: User where
  "applicant =
     \<lparr> u_ID = 1, u_UserID = ''USR001'', u_Email = ''rahul@example.com'',
       u_MonthlyIncome = 60000, u_CreditScore = 780, u_EmploymentStatus = ''employed'',
       u_Age = 35, u_BatchID = ''batch-001'', u_IsActive = True \<rparr>"

definition student :: User where
  "student = applicant\<lparr>u_ID := 2, u_UserID := ''USR002'', u_EmploymentStatus := ''student''\<rparr>"

definition scenarioProduct :: LoanProduct where
  "scenarioProduct =
     \<lparr> p_ID = 10, p_ProductName = ''Personal Loan'', p_ProviderName = ''Test Bank'',
       p_InterestRateMin = 10.5, p_InterestRateMax = 18,
       p_LoanAmountMin = 50000, p_LoanAmountMax = 2500000,
       p_TenureMinMonths = 12, p_TenureMaxMonths = 60,
       p_MinMonthlyIncome = 25000, p_MinCreditScore = 700, p_MaxCreditScore = None,
       p_MinAge = 21, p_MaxAge = 60,
       p_AcceptedEmploymentStatus = [''employed'', ''self_employed''],
       p_IsActive = True \<rparr>"

definition cappedProduct :: LoanProduct where
  "cappedProduct = scenarioProduct\<lparr>p_ID := 11, p_MaxCreditScore := Some 750\<rparr>"

definition zeroTenureProduct :: LoanProduct where
  "zeroTenureProduct =
     scenarioProduct\<lparr>p_ID := 12, p_InterestRateMax := 12, p_LoanAmountMin := 100000,
                      p_TenureMinMonths := 0, p_TenureMaxMonths := 0,
                      p_MinMonthlyIncome := 1000\<rparr>"

text \<open>A row of the pre-filter: an applicant without income and a product that asks for none.\<close>

definition zeroIncomeRow :: SQLCandidate where
  "zeroIncomeRow =
     scanRow (applicant\<lparr>u_MonthlyIncome := 0\<rparr>) (scenarioProduct\<lparr>p_MinMonthlyIncome := 0\<rparr>)"

text \<open>Candidates after Stage 2, with given scores.\<close>

definition scored :: "int \<Rightarrow> int \<Rightarrow> real \<Rightarrow> MatchCandidate" where
  "scored uid pid s =
     (newCandidate applicant scenarioProduct)
       \<lparr>c_UserID := uid, c_ProductID := pid, c_EligibilityScore := s\<rparr>"

definition candidate60 :: MatchCandidate where
  "candidate60 = scored 1 10 60"

text \<open>A transport that always fails, and repositories that fail or answer.\<close>

definition failingTransport :: "User \<Rightarrow> LoanProduct \<Rightarrow> error + (string \<times> json) list" where
  "failingTransport user product = Inl (Error ''API returned status 503'')"

definition noUnmarshal :: "string \<Rightarrow> error + LLMResponse" where
  "noUnmarshal text = Inl (Error ''unexpected end of JSON input'')"

text \<open>A reply with status 200 whose only candidate has no content.\<close>

definition replyWithoutContent :: "User \<Rightarrow> LoanProduct \<Rightarrow> error + (string \<times> json) list" where
  "replyWithoutContent user product = Inr [(''candidates'', JArray [JObject []])]"

definition failingGetByIDs :: "int list \<Rightarrow> error + User list" where
  "failingGetByIDs ids = Inl (Error ''connection refused'')"

definition workingGetByIDs :: "int list \<Rightarrow> error + User list" where
  "workingGetByIDs ids = Inr [applicant]"

definition failingBulkInsert :: "MatchCreate option list \<Rightarrow> nat \<times> nat \<times> error option" where
  "failingBulkInsert matches = (0, 0, Some (Error ''connection lost''))"

subsection \<open>Notions used in the proofs about the ranker\<close>

definition sortedByScoreDesc :: "MatchCandidate list \<Rightarrow> bool" where
  "sortedByScoreDesc ys =
     sorted_wrt (\<lambda>a b. c_EligibilityScore a \<ge> c_EligibilityScore b) ys"

text \<open>One pass of the inner loop over a whole list, by recursion on the list.\<close>

fun bubble :: "MatchCandidate list \<Rightarrow> MatchCandidate list" where
  "bubble (x # y # zs) =
     (if c_EligibilityScore x < c_EligibilityScore y then y # bubble (x # zs)
      else x # bubble (y # zs))"
| "bubble xs = xs"

text \<open>
  The state of the outer loop after \<open>m\<close> passes: the last \<open>m\<close> entries are settled (in
  descending order and not above any earlier entry), and the list is a rearrangement of
  the input that keeps the order of candidates with equal scores.
\<close>

definition passInvariant :: "MatchCandidate list \<Rightarrow> nat \<Rightarrow> MatchCandidate list \<Rightarrow> bool" where
  "passInvariant cs m ys \<longleftrightarrow>
     (\<exists>rest settled. ys = rest @ settled \<and> length settled = m
        \<and> sortedByScoreDesc settled
        \<and> (\<forall>a \<in> set rest. \<forall>b \<in> set settled. c_EligibilityScore b \<le> c_EligibilityScore a))
     \<and> mset ys = mset cs
     \<and> (\<forall>s. filter (\<lambda>c. c_EligibilityScore c = s) ys
              = filter (\<lambda>c. c_EligibilityScore c = s) cs)"

section \<open>Stage 1\<close>

lemmas flag_defs =
  incomeEligible_def creditScoreEligible_def ageEligible_def employmentEligible_def

lemma employmentLoop_set: "employmentLoop xs s = (s \<in> set xs)"
  by (induction xs) auto

lemma employmentEligible_iff:
  "employmentEligible u p \<longleftrightarrow>
     p_AcceptedEmploymentStatus p = [] \<or> u_EmploymentStatus u \<in> set (p_AcceptedEmploymentStatus p)"
  by (simp add: employmentEligible_def employmentLoop_set)

text \<open>A product with an empty accepted list accepts a student.\<close>

lemma empty_list_accepts_student:
  "employmentEligible (u\<lparr>u_EmploymentStatus := ''student''\<rparr>)
                      (p\<lparr>p_AcceptedEmploymentStatus := []\<rparr>)"
  by (simp add: employmentEligible_iff)

text \<open>The inner loop appends, in order, one candidate for each passing product.\<close>

lemma fold_sqlPrefilterBody:
  "fold (sqlPrefilterBody u) ps acc =
     acc @ map (newCandidate u)
              (filter (\<lambda>p. incomeEligible u p \<and> creditScoreEligible u p
                            \<and> ageEligible u p \<and> employmentEligible u p) ps)"
  by (induction ps arbitrary: acc) (simp_all add: sqlPrefilterBody_def)

lemma fold_sqlPrefilter_users:
  "fold (\<lambda>user candidates. fold (sqlPrefilterBody user) ps candidates) us acc =
     acc @ concat (map (\<lambda>u. map (newCandidate u)
                                (filter (\<lambda>p. incomeEligible u p \<and> creditScoreEligible u p
                                              \<and> ageEligible u p \<and> employmentEligible u p) ps)) us)"
  by (induction us arbitrary: acc) (simp_all add: fold_sqlPrefilterBody)

text \<open>
  What the in-memory Stage 1 tests, written out: a pair is passed exactly when the income
  is at least the minimum income, the credit score is at least the minimum credit score,
  the age is within the age range, and the accepted list is empty or holds the user's
  status. The maximum credit score does not occur.
\<close>

lemma sqlPrefilter_tests:
  "sqlPrefilter users products =
     concat (map (\<lambda>u. map (newCandidate u)
                          (filter (\<lambda>p. p_MinMonthlyIncome p \<le> u_MonthlyIncome u
                                        \<and> p_MinCreditScore p \<le> u_CreditScore u
                                        \<and> p_MinAge p \<le> u_Age u \<and> u_Age u \<le> p_MaxAge p
                                        \<and> (p_AcceptedEmploymentStatus p = []
                                             \<or> u_EmploymentStatus u
                                                  \<in> set (p_AcceptedEmploymentStatus p)))
                                  products))
                 users)"
  by (simp add: sqlPrefilter_def fold_sqlPrefilter_users incomeEligible_def
        creditScoreEligible_def ageEligible_def employmentEligible_iff)

text \<open>\<^verbatim>\<open>IsFullyEligible\<close> is the conjunction of its four tests.\<close>

lemma IsFullyEligible_iff:
  "IsFullyEligible c \<longleftrightarrow>
     mc_MonthlyIncome c \<ge> mc_MinMonthlyIncome c
     \<and> mc_CreditScore c \<ge> mc_MinCreditScore c
     \<and> (case mc_MaxCreditScore c of None \<Rightarrow> True | Some mx \<Rightarrow> mc_CreditScore c \<le> mx)
     \<and> mc_MinAge c \<le> mc_Age c \<and> mc_Age c \<le> mc_MaxAge c
     \<and> (mc_AcceptedEmploymentStatus c = []
          \<or> mc_EmploymentStatus c \<in> set (mc_AcceptedEmploymentStatus c))"
  by (auto simp: IsFullyEligible_def employmentLoop_set split: option.splits)

text \<open>
  C1. The claim takes the four flags as the specification defines them; its credit flag
  asks for a credit score of at least the minimum and, when a maximum is set, of at most the
  maximum. For the applicant with credit score 780 and the product with minimum 700 and
  maximum 750 the income, age and employment flags are true and the credit flag is false,
  yet the in-memory Stage 1 returns the pair, and it is its only output.
\<close>

theorem sqlPrefilter_passes_pair_with_false_credit_flag:
  "p_MinMonthlyIncome cappedProduct \<le> u_MonthlyIncome applicant
   \<and> (p_MinAge cappedProduct \<le> u_Age applicant \<and> u_Age applicant \<le> p_MaxAge cappedProduct)
   \<and> (p_AcceptedEmploymentStatus cappedProduct = []
        \<or> u_EmploymentStatus applicant \<in> set (p_AcceptedEmploymentStatus cappedProduct))
   \<and> \<not> (p_MinCreditScore cappedProduct \<le> u_CreditScore applicant
          \<and> (case p_MaxCreditScore cappedProduct of
                None \<Rightarrow> True | Some mx \<Rightarrow> u_CreditScore applicant \<le> mx))
   \<and> sqlPrefilter [applicant] [cappedProduct] = [newCandidate applicant cappedProduct]
   \<and> c_UserID (newCandidate applicant cappedProduct) = u_ID applicant
   \<and> c_ProductID (newCandidate applicant cappedProduct) = p_ID cappedProduct"
  by (simp add: sqlPrefilter_def sqlPrefilterBody_def flag_defs newCandidate_def
        applicant_def cappedProduct_def scenarioProduct_def)

text \<open>
  C2. The credit flag of the in-memory Stage 1 compares with the minimum only. An applicant
  with credit score 780 is flagged credit-eligible for a product whose maximum credit score
  is set to 750, and the pair is part of the Stage-1 output.
\<close>

theorem sqlPrefilter_ignores_max_credit:
  "u_CreditScore applicant = 780 \<and> p_MaxCreditScore cappedProduct = Some 750
   \<and> creditScoreEligible applicant cappedProduct
   \<and> map (\<lambda>c. (c_UserID c, c_ProductID c, c_CreditScoreEligible c))
          (sqlPrefilter [applicant] [cappedProduct]) = [(1, 11, True)]"
  by (simp add: sqlPrefilter_def sqlPrefilterBody_def flag_defs newCandidate_def
        applicant_def cappedProduct_def scenarioProduct_def)

text \<open>The two sibling paths do test the maximum: the query yields no row for the pair,
  whatever the driver does, and \<^verbatim>\<open>IsFullyEligible\<close> rejects it.\<close>

lemma siblings_respect_max_credit:
  "sqlRows [applicant] [cappedProduct] [] = []
   \<and> SQLPrefilterMatches None rowsScan unmarshal [applicant] [cappedProduct] [] = Inr []
   \<and> \<not> IsFullyEligible (scanRow applicant cappedProduct)"
  by (simp add: SQLPrefilterMatches_def sqlRows_def sqlWhere_def IsFullyEligible_def scanRow_def
        applicant_def cappedProduct_def scenarioProduct_def)

text \<open>
  C3. The two Stage-1 strategies do not accept the same pairs. For the applicant with credit
  score 780 and the product capped at 750 the double loop accepts the pair (1, 11). The
  query yields no row for it, so the database path returns no candidate, whether the query
  succeeds or fails and whatever the driver's scan would do: it accepts no pair.
\<close>

theorem stage1_strategies_differ:
  "memoryPairs (sqlPrefilter [applicant] [cappedProduct]) = {(1, 11)}
   \<and> SQLPrefilterMatches None rowsScan unmarshal [applicant] [cappedProduct] [] = Inr []
   \<and> sqlAccepted (SQLPrefilterMatches queryErr rowsScan unmarshal [applicant] [cappedProduct] [])
       = {}"
proof -
  have rows: "sqlRows [applicant] [cappedProduct] [] = []"
    by (simp add: sqlRows_def sqlWhere_def applicant_def cappedProduct_def scenarioProduct_def)
  have mem: "memoryPairs (sqlPrefilter [applicant] [cappedProduct]) = {(1, 11)}"
    by (simp add: memoryPairs_def sqlPrefilter_def sqlPrefilterBody_def flag_defs
          newCandidate_def applicant_def cappedProduct_def scenarioProduct_def)
  have ok: "SQLPrefilterMatches None rowsScan unmarshal [applicant] [cappedProduct] [] = Inr []"
    by (simp add: SQLPrefilterMatches_def rows)
  have acc: "sqlAccepted (SQLPrefilterMatches queryErr rowsScan unmarshal
                [applicant] [cappedProduct] []) = {}"
    by (cases queryErr) (simp_all add: SQLPrefilterMatches_def rows sqlAccepted_def sqlPairs_def)
  from mem ok acc show ?thesis by simp
qed

text \<open>The pairs the double loop accepts and the pairs of the rows the query yields, as sets.\<close>

lemma memoryPairs_sqlPrefilter:
  "memoryPairs (sqlPrefilter users products)
      = (\<lambda>(u, p). (u_ID u, p_ID p)) `
          {(u, p). u \<in> set users \<and> p \<in> set products
             \<and> incomeEligible u p \<and> creditScoreEligible u p
             \<and> ageEligible u p \<and> employmentEligible u p}"
  unfolding memoryPairs_def sqlPrefilter_def fold_sqlPrefilter_users
  by (force simp: newCandidate_def)

lemma set_sqlRows:
  "set (sqlRows users products batchID)
      = {(u, p). u \<in> set users \<and> p \<in> set products \<and> sqlWhere batchID u p}"
  unfolding sqlRows_def by (force split: if_splits)

text \<open>Without a cap on the credit score and without a restriction on employment, and with all
  rows active, the rows of the query are the pairs the double loop accepts.\<close>

lemma stage1_strategies_agree_when_unrestricted:
  assumes "\<forall>u \<in> set users. u_IsActive u"
    and "\<forall>p \<in> set products. p_IsActive p \<and> p_MaxCreditScore p = None
                                  \<and> p_AcceptedEmploymentStatus p = []"
  shows "memoryPairs (sqlPrefilter users products)
           = (\<lambda>(u, p). (u_ID u, p_ID p)) ` set (sqlRows users products [])"
proof -
  have "{(u, p). u \<in> set users \<and> p \<in> set products
             \<and> incomeEligible u p \<and> creditScoreEligible u p
             \<and> ageEligible u p \<and> employmentEligible u p}
      = {(u, p). u \<in> set users \<and> p \<in> set products \<and> sqlWhere [] u p}"
    using assms by (auto simp: flag_defs sqlWhere_def)
  then show ?thesis
    by (simp only: memoryPairs_sqlPrefilter set_sqlRows)
qed

section \<open>Stage 2\<close>

subsection \<open>Rounding\<close>

text \<open>Rounding moves a number of the normal range by at most one part in \<open>2 ^ 53\<close>, and leaves
  an integer below \<open>2 ^ 53\<close> as it is.\<close>

lemma roundEven_error: "\<bar>of_int (roundEven t) - t\<bar> \<le> 1 / 2"
  unfolding roundEven_def Let_def by (auto; linarith)

lemma roundEven_of_int: "roundEven (of_int k) = k"
  by (simp add: roundEven_def)

lemma rnd64_relative:
  assumes lo: "2 powr (- 1022) \<le> \<bar>x\<bar>" and hi: "\<bar>x\<bar> \<le> 2 ^ 1023"
  shows "\<exists>y. rnd64 x = Fin y \<and> \<bar>y - x\<bar> \<le> \<bar>x\<bar> / 2 ^ 53"
proof -
  have "(0::real) < 2 powr (- 1022)" by simp
  then have x0: "x \<noteq> 0" using lo by auto
  have pos: "0 < \<bar>x\<bar>" using x0 by simp
  define E where "E = \<lfloor>log 2 \<bar>x\<bar>\<rfloor>"
  have "- 1022 \<le> log 2 \<bar>x\<bar>"
    using lo pos by (simp add: le_log_iff)
  then have E_lo: "- 1022 \<le> E" unfolding E_def by (simp add: le_floor_iff)
  have ex: "exponent64 x = E" using E_lo by (simp add: exponent64_def E_def)
  have "of_int E \<le> log 2 \<bar>x\<bar>" unfolding E_def by simp
  then have pE: "(2::real) powr of_int E \<le> \<bar>x\<bar>"
    using pos by (simp add: le_log_iff)
  define q :: real where "q = 2 powr of_int (E - 52)"
  have qpos: "0 < q" by (simp add: q_def)
  have q_eq: "q = 2 powr of_int E / 2 ^ 52"
    by (simp add: q_def powr_diff powr_realpow[symmetric])
  have q_le: "q \<le> \<bar>x\<bar> / 2 ^ 52" unfolding q_eq using pE by (simp add: divide_right_mono)
  define y where "y = of_int (roundEven (x / q)) * q"
  have "\<bar>y - x\<bar> = \<bar>of_int (roundEven (x / q)) - x / q\<bar> * q"
  proof -
    have "y - x = (of_int (roundEven (x / q)) - x / q) * q"
      using qpos by (simp add: y_def field_simps)
    then show ?thesis using qpos by (simp add: abs_mult)
  qed
  also have "\<dots> \<le> (1 / 2) * q"
    using roundEven_error[of "x / q"] qpos by (intro mult_right_mono) simp_all
  also have "\<dots> \<le> (1 / 2) * (\<bar>x\<bar> / 2 ^ 52)" using q_le by simp
  also have "\<dots> = \<bar>x\<bar> / 2 ^ 53" by simp
  finally have err: "\<bar>y - x\<bar> \<le> \<bar>x\<bar> / 2 ^ 53" .
  have "\<bar>y\<bar> \<le> \<bar>x\<bar> + \<bar>x\<bar> / 2 ^ 53" using err by linarith
  also have "\<dots> \<le> 2 ^ 1023 + 2 ^ 1023 / 2 ^ 53" using hi by (intro add_mono divide_right_mono) simp_all
  also have "\<dots> < (2 :: real) ^ 1024" by simp
  finally have fin: "\<not> 2 ^ 1024 \<le> \<bar>y\<bar>" by simp
  have "rnd64 x = Fin y"
    using x0 fin by (simp add: rnd64_def ex Let_def y_def q_def)
  then show ?thesis using err by blast
qed

lemma rnd64_of_int:
  assumes "\<bar>m\<bar> < 2 ^ 53"
  shows "rnd64 (of_int m) = Fin (of_int m)"
proof (cases "m = 0")
  case True
  then show ?thesis by (simp add: rnd64_def)
next
  case False
  define x :: real where "x = of_int m"
  have x0: "x \<noteq> 0" using False by (simp add: x_def)
  have ge1: "1 \<le> \<bar>x\<bar>"
  proof -
    have "1 \<le> \<bar>m\<bar>" using False by simp
    then have "real_of_int 1 \<le> real_of_int \<bar>m\<bar>" by (simp only: of_int_le_iff)
    then show ?thesis by (simp add: x_def)
  qed
  have lt: "\<bar>x\<bar> < 2 ^ 53"
  proof -
    have "real_of_int \<bar>m\<bar> < real_of_int (2 ^ 53)" using assms by (simp only: of_int_less_iff)
    then show ?thesis by (simp add: x_def)
  qed
  define E where "E = \<lfloor>log 2 \<bar>x\<bar>\<rfloor>"
  have "0 \<le> log 2 \<bar>x\<bar>" using ge1 by simp
  then have E0: "0 \<le> E" by (simp add: E_def)
  have "log 2 \<bar>x\<bar> < 53"
    using lt ge1 by (simp add: log_less_iff powr_realpow[symmetric])
  then have E52: "E \<le> 52" unfolding E_def by (simp add: floor_le_iff)
  have ex: "exponent64 x = E" using E0 by (simp add: exponent64_def E_def)
  define k where "k = nat (52 - E)"
  have q: "(2::real) powr of_int (E - 52) = 1 / 2 ^ k"
  proof -
    have "of_int (E - 52) = - real k" using E52 by (simp add: k_def)
    then show ?thesis by (simp add: powr_minus powr_realpow divide_inverse)
  qed
  have quo: "x / (1 / 2 ^ k) = of_int (m * 2 ^ k)" by (simp add: x_def)
  have y: "of_int (roundEven (x / (1 / 2 ^ k))) * (1 / 2 ^ k) = x"
    unfolding quo roundEven_of_int by (simp add: x_def)
  have fin: "\<not> 2 ^ 1024 \<le> \<bar>x\<bar>"
  proof -
    have "(2::real) ^ 53 \<le> 2 ^ 1024" by (intro power_increasing) simp_all
    then show ?thesis using lt by linarith
  qed
  have "rnd64 x = Fin x"
    unfolding rnd64_def ex Let_def q y using x0 fin by simp
  then show ?thesis by (simp add: x_def)
qed

lemma powLoop_power64: "powLoop b k (power64 b j) = power64 b (j + k)"
proof (induction k arbitrary: j)
  case 0
  show ?case by simp
next
  case (Suc k)
  have "powLoop b (Suc k) (power64 b j) = powLoop b k (power64 b (Suc j))" by simp
  also have "\<dots> = power64 b (Suc j + k)" by (rule Suc.IH)
  finally show ?case by simp
qed

lemma pow_power64: "pow b (Fin (of_int n)) = power64 b (nat n)"
  using powLoop_power64[of b "nat n" 0] by (simp add: pow_def)

lemma i2f_exact: "\<bar>n\<bar> < 2 ^ 53 \<Longrightarrow> i2f n = Fin (of_int n)"
  by (simp add: i2f_def rnd64_of_int)

lemma rnd64_between:
  assumes "lo \<le> x" and "x \<le> hi" and "1 / 2 ^ 1022 \<le> lo" and "hi \<le> 2 ^ 1023"
    and "lo' \<le> lo * (1 - 1 / 2 ^ 53)" and "hi * (1 + 1 / 2 ^ 53) \<le> hi'"
  shows "\<exists>y. rnd64 x = Fin y \<and> lo' \<le> y \<and> y \<le> hi'"
proof -
  have p: "(2::real) powr (- 1022) = 1 / 2 ^ 1022"
    by (simp add: powr_neg_numeral)
  have "(0::real) < 1 / 2 ^ 1022" by simp
  then have lopos: "0 < lo" using assms(3) by linarith
  have xpos: "0 < x" using lopos assms(1) by linarith
  have "2 powr (- 1022) \<le> \<bar>x\<bar>" using assms(1,3) xpos unfolding p by linarith
  moreover have "\<bar>x\<bar> \<le> 2 ^ 1023" using assms(2,4) xpos by linarith
  ultimately obtain y where y: "rnd64 x = Fin y" and e: "\<bar>y - x\<bar> \<le> \<bar>x\<bar> / 2 ^ 53"
    using rnd64_relative by blast
  define eps :: real where "eps = 1 / 2 ^ 53"
  have eps0: "0 \<le> eps" "eps \<le> 1" by (simp_all add: eps_def)
  have e': "\<bar>y - x\<bar> \<le> x * eps" using e xpos by (simp add: eps_def)
  have "lo * (1 - eps) \<le> x * (1 - eps)"
    using assms(1) eps0 by (intro mult_right_mono) simp_all
  moreover have "x * (1 - eps) \<le> y" using e' by (simp add: algebra_simps abs_le_iff)
  ultimately have 1: "lo' \<le> y" using assms(5) unfolding eps_def by linarith
  have "x * (1 + eps) \<le> hi * (1 + eps)"
    using assms(2) eps0 by (intro mult_right_mono) simp_all
  moreover have "y \<le> x * (1 + eps)" using e' by (simp add: algebra_simps abs_le_iff)
  ultimately have 2: "y \<le> hi'" using assms(6) unfolding eps_def by linarith
  show ?thesis using y 1 2 by blast
qed

text \<open>Bounds for the result of one operation on positive numbers, from bounds for its operands.\<close>

lemma mul64_between:
  assumes "la \<le> a" "a \<le> ua" "lb \<le> b" "b \<le> ub" "0 < la" "0 < lb"
    and "1 / 2 ^ 1022 \<le> la * lb" "ua * ub \<le> 2 ^ 1023"
    and "lo' \<le> la * lb * (1 - 1 / 2 ^ 53)" "ua * ub * (1 + 1 / 2 ^ 53) \<le> hi'"
  shows "\<exists>c. mul64 (Fin a) (Fin b) = Fin c \<and> lo' \<le> c \<and> c \<le> hi'"
proof -
  have 1: "la * lb \<le> a * b" using assms by (intro mult_mono) simp_all
  have 2: "a * b \<le> ua * ub" using assms by (intro mult_mono) simp_all
  from rnd64_between[OF 1 2 assms(7,8,9,10)] show ?thesis by (simp add: mul64_def)
qed

lemma div64_between:
  assumes "la \<le> a" "a \<le> ua" "lb \<le> b" "b \<le> ub" "0 < la" "0 < lb"
    and "1 / 2 ^ 1022 \<le> la / ub" "ua / lb \<le> 2 ^ 1023"
    and "lo' \<le> la / ub * (1 - 1 / 2 ^ 53)" "ua / lb * (1 + 1 / 2 ^ 53) \<le> hi'"
  shows "\<exists>c. div64 (Fin a) (Fin b) = Fin c \<and> lo' \<le> c \<and> c \<le> hi'"
proof -
  have b0: "b \<noteq> 0" using assms by linarith
  have 1: "la / ub \<le> a / b" using assms by (intro frac_le) simp_all
  have 2: "a / b \<le> ua / lb" using assms by (intro frac_le) simp_all
  from rnd64_between[OF 1 2 assms(7,8,9,10)] show ?thesis using b0 by simp
qed

lemma add64_between:
  assumes "la \<le> a" "a \<le> ua" "lb \<le> b" "b \<le> ub"
    and "1 / 2 ^ 1022 \<le> la + lb" "ua + ub \<le> 2 ^ 1023"
    and "lo' \<le> (la + lb) * (1 - 1 / 2 ^ 53)" "(ua + ub) * (1 + 1 / 2 ^ 53) \<le> hi'"
  shows "\<exists>c. add64 (Fin a) (Fin b) = Fin c \<and> lo' \<le> c \<and> c \<le> hi'"
proof -
  have 1: "la + lb \<le> a + b" using assms by linarith
  have 2: "a + b \<le> ua + ub" using assms by linarith
  from rnd64_between[OF 1 2 assms(5,6,7,8)] show ?thesis by (simp add: add64_def)
qed

lemma sub64_between:
  assumes "la \<le> a" "a \<le> ua"
    and "1 / 2 ^ 1022 \<le> la - b" "ua - b \<le> 2 ^ 1023"
    and "lo' \<le> (la - b) * (1 - 1 / 2 ^ 53)" "(ua - b) * (1 + 1 / 2 ^ 53) \<le> hi'"
  shows "\<exists>c. sub64 (Fin a) (Fin b) = Fin c \<and> lo' \<le> c \<and> c \<le> hi'"
proof -
  have 1: "la - b \<le> a + - b" using assms by linarith
  have 2: "a + - b \<le> ua - b" using assms by linarith
  from rnd64_between[OF 1 2 assms(3,4,5,6)] show ?thesis by (simp add: sub64_def add64_def)
qed

text \<open>The repeated product stays between the powers of two bounds of the rounded factor.\<close>
lemma power64_between:
  assumes "1 \<le> L" and "L \<le> bb * (1 - 1 / 2 ^ 53)" and "bb * (1 + 1 / 2 ^ 53) \<le> U"
    and "U ^ n \<le> 2 ^ 1023"
  shows "k \<le> n \<Longrightarrow> \<exists>c. power64 (Fin bb) k = Fin c \<and> L ^ k \<le> c \<and> c \<le> U ^ k"
proof (induction k)
  case 0
  show ?case by simp
next
  case (Suc k)
  then obtain c where c: "power64 (Fin bb) k = Fin c" "L ^ k \<le> c" "c \<le> U ^ k" by auto
  define eps :: real where "eps = 1 / 2 ^ 53"
  have eps: "0 < eps" "eps < 1" by (simp_all add: eps_def)
  have Lb: "L \<le> bb * (1 - eps)" and bU: "bb * (1 + eps) \<le> U" using assms by (simp_all add: eps_def)
  have bpos: "0 < bb"
  proof (rule ccontr)
    assume "\<not> 0 < bb"
    then have "bb * (1 - eps) \<le> 0" using eps by (intro mult_nonpos_nonneg) simp_all
    then show False using assms(1) Lb by linarith
  qed
  have bb1: "1 \<le> bb"
  proof -
    have "bb * (1 - eps) \<le> bb * 1" using eps bpos by (intro mult_left_mono) simp_all
    then show ?thesis using assms(1) Lb by linarith
  qed
  have bbU: "bb \<le> U"
  proof -
    have "bb * 1 \<le> bb * (1 + eps)" using eps bpos by (intro mult_left_mono) simp_all
    then show ?thesis using bU by linarith
  qed
  have U1: "1 \<le> U" using bb1 bbU by linarith
  have Lk: "1 \<le> L ^ k" using assms(1) by simp
  have lo: "L ^ k * bb \<le> c * bb" using c bb1 by (intro mult_right_mono) simp_all
  have hi: "c * bb \<le> U ^ k * bb" using c bb1 by (intro mult_right_mono) simp_all
  have r1: "1 / 2 ^ 1022 \<le> L ^ k * bb"
  proof -
    have "(1::real) / 2 ^ 1022 \<le> 1" by simp
    moreover have "1 * 1 \<le> L ^ k * bb" using Lk bb1 by (intro mult_mono) simp_all
    ultimately show ?thesis by linarith
  qed
  have r2: "U ^ k * bb \<le> 2 ^ 1023"
  proof -
    have "U ^ k * bb \<le> U ^ k * U" using bbU U1 by (intro mult_left_mono) simp_all
    also have "\<dots> = U ^ Suc k" by simp
    also have "\<dots> \<le> U ^ n" using U1 Suc.prems by (intro power_increasing) simp_all
    finally show ?thesis using assms(4) by linarith
  qed
  have l': "L ^ Suc k \<le> L ^ k * bb * (1 - eps)"
  proof -
    have "L ^ k * L \<le> L ^ k * (bb * (1 - eps))" using Lb Lk by (intro mult_left_mono) simp_all
    then show ?thesis by (simp add: ac_simps)
  qed
  have u': "U ^ k * bb * (1 + eps) \<le> U ^ Suc k"
  proof -
    have "U ^ k * (bb * (1 + eps)) \<le> U ^ k * U" using bU U1 by (intro mult_left_mono) simp_all
    then show ?thesis by (simp add: ac_simps)
  qed
  from rnd64_between[OF lo hi r1 r2, folded eps_def, OF l' u']
  show ?case using c(1) by (simp add: mul64_def)
qed

subsection \<open>Affordability\<close>

lemma pow_60: "pow b (Fin 60) = power64 b 60"
  using pow_power64[of b 60] by simp

text \<open>With a tenure below \<open>2 ^ 53\<close> the conversion to \<^verbatim>\<open>float64\<close> is exact, and the code
  compares the installment formula, for the tenure or for 60 months, with the ceiling.\<close>

lemma passesBusinessRules_formula:
  assumes r: "fgt (monthlyRate product) (Fin 0)"
    and t0: "0 \<le> p_TenureMaxMonths product" and t1: "p_TenureMaxMonths product < 2 ^ 53"
  shows "passesBusinessRules user product \<longleftrightarrow>
     \<not> fgt (installment64 (p_LoanAmountMin product) (monthlyRate product)
               (if p_TenureMaxMonths product = 0 then 60 else nat (p_TenureMaxMonths product)))
           (mul64 (mul64 (Fin (u_MonthlyIncome user)) (Fin 0.5)) (Fin 2.0))"
proof -
  have conv: "i2f (p_TenureMaxMonths product) = Fin (of_int (p_TenureMaxMonths product))"
    using t0 t1 by (intro i2f_exact) simp
  show ?thesis
  proof (cases "p_TenureMaxMonths product = 0")
    case True
    have "i2f 0 = Fin 0"
      using conv True by simp
    then show ?thesis
      using r True
      by (simp add: passesBusinessRules_def pow_60 installment64_def maxEMI_def Let_def)
  next
    case False
    then have "Fin (real_of_int (p_TenureMaxMonths product)) \<noteq> Fin 0" by simp
    then show ?thesis
      using r False
      by (simp add: passesBusinessRules_def conv pow_power64 installment64_def maxEMI_def Let_def)
  qed
qed

text \<open>
  The example: \<^const>\<open>applicant\<close>, with an income of 60000, and \<^const>\<open>zeroTenureProduct\<close>, with a
  yearly rate of 12 percent, a minimum amount of 100000 and a maximum tenure of 0. Each
  operation of the code is followed with bounds on its rounded result.
\<close>

lemma zeroTenure_rate:
  "\<exists>r. monthlyRate zeroTenureProduct = Fin r \<and> 9 / 1000 \<le> r \<and> r \<le> 11 / 1000"
proof -
  obtain q where q: "div64 (Fin 12) (Fin 100) = Fin q" "11 / 100 \<le> q" "q \<le> 13 / 100"
    using div64_between[of 12 12 12 100 100 100 "11 / 100" "13 / 100"] by auto
  obtain r where r: "div64 (Fin q) (Fin 12) = Fin r" "9 / 1000 \<le> r" "r \<le> 11 / 1000"
    using div64_between[of "11 / 100" q "13 / 100" 12 12 12 "9 / 1000" "11 / 1000"] q by auto
  show ?thesis
    using q r by (simp add: monthlyRate_def zeroTenureProduct_def scenarioProduct_def)
qed

lemma zeroTenure_rate_positive: "fgt (monthlyRate zeroTenureProduct) (Fin 0)"
  using zeroTenure_rate by auto

lemma zero_rate: "monthlyRate (zeroTenureProduct\<lparr>p_InterestRateMax := 0\<rparr>) = Fin 0"
  by (simp add: monthlyRate_def rnd64_def)

lemma power64_60_bounds:
  assumes "1008 / 1000 \<le> b" and "b \<le> 1012 / 1000"
  shows "\<exists>c. power64 (Fin b) 60 = Fin c \<and> 3 / 2 \<le> c \<and> c \<le> 22 / 10"
proof -
  have l: "(1007 / 1000 :: real) \<le> b * (1 - 1 / 2 ^ 53)"
    using assms by simp
  have u: "b * (1 + 1 / 2 ^ 53) \<le> (1013 / 1000 :: real)"
    using assms by simp
  have top: "(1013 / 1000 :: real) ^ 60 \<le> 2 ^ 1023"
    by (simp add: power_divide)
  obtain c where c: "power64 (Fin b) 60 = Fin c" "(1007 / 1000) ^ 60 \<le> c" "c \<le> (1013 / 1000) ^ 60"
    using power64_between[of "1007 / 1000" b "1013 / 1000" 60 60, OF _ l u top] by auto
  have "(3 / 2 :: real) \<le> (1007 / 1000) ^ 60"
    by (simp add: power_divide)
  moreover have "(1013 / 1000 :: real) ^ 60 \<le> 22 / 10"
    by (simp add: power_divide)
  ultimately show ?thesis
    using c by auto
qed

text \<open>Over 60 months the installment is a number between 1100 and 5000.\<close>

lemma installment_60_bounds:
  assumes "9 / 1000 \<le> r" and "r \<le> 11 / 1000"
  shows "\<exists>e. installment64 100000 (Fin r) 60 = Fin e \<and> 1100 \<le> e \<and> e \<le> 5000"
proof -
  obtain b where b: "add64 (Fin 1) (Fin r) = Fin b" "1008 / 1000 \<le> b" "b \<le> 1012 / 1000"
    using add64_between[of 1 1 1 "9 / 1000" r "11 / 1000" "1008 / 1000" "1012 / 1000"] assms
    by auto
  obtain pw where pw: "power64 (Fin b) 60 = Fin pw" "3 / 2 \<le> pw" "pw \<le> 22 / 10"
    using power64_60_bounds[OF b(2,3)] by auto
  obtain n1 where n1: "mul64 (Fin 100000) (Fin r) = Fin n1" "899 \<le> n1" "n1 \<le> 1101"
    using mul64_between[of 100000 100000 100000 "9 / 1000" r "11 / 1000" 899 1101] assms
    by auto
  obtain n2 where n2: "mul64 (Fin n1) (Fin pw) = Fin n2" "1348 \<le> n2" "n2 \<le> 2423"
    using mul64_between[of 899 n1 1101 "3 / 2" pw "22 / 10" 1348 2423] n1 pw by auto
  obtain d where d: "sub64 (Fin pw) (Fin 1) = Fin d" "49 / 100 \<le> d" "d \<le> 121 / 100"
    using sub64_between[of "3 / 2" pw "22 / 10" 1 "49 / 100" "121 / 100"] pw by auto
  obtain e where e: "div64 (Fin n2) (Fin d) = Fin e" "1100 \<le> e" "e \<le> 5000"
    using div64_between[of 1348 n2 2423 "49 / 100" d "121 / 100" 1100 5000] n2 d by auto
  show ?thesis
    using b pw n1 n2 d e by (simp add: installment64_def)
qed

text \<open>
  Over 0 months the formula divides a positive number by \<open>1 - 1 = 0\<close>: in binary64 the result
  is the positive infinity.
\<close>

lemma installment_0_infinite:
  assumes "9 / 1000 \<le> r" and "r \<le> 11 / 1000"
  shows "installment64 100000 (Fin r) 0 = PosInf"
proof -
  obtain n1 where n1: "mul64 (Fin 100000) (Fin r) = Fin n1" "899 \<le> n1" "n1 \<le> 1101"
    using mul64_between[of 100000 100000 100000 "9 / 1000" r "11 / 1000" 899 1101] assms
    by auto
  obtain n2 where n2: "mul64 (Fin n1) (Fin 1) = Fin n2" "898 \<le> n2" "n2 \<le> 1102"
    using mul64_between[of 899 n1 1101 1 1 1 898 1102] n1 by auto
  have d: "sub64 (Fin 1) (Fin 1) = Fin 0"
    by (simp add: sub64_def add64_def rnd64_def)
  have "div64 (Fin n2) (Fin 0) = PosInf"
    using n2 by (simp add: fdiv_def)
  then show ?thesis
    using n1 n2 d by (simp add: installment64_def)
qed

lemma applicant_ceiling:
  "\<exists>c. mul64 (mul64 (Fin (u_MonthlyIncome applicant)) (Fin 0.5)) (Fin 2.0) = Fin c
     \<and> 59997 \<le> c \<and> c \<le> 60003"
proof -
  obtain m where m: "mul64 (Fin 60000) (Fin (1 / 2)) = Fin m" "29999 \<le> m" "m \<le> 30001"
    using mul64_between[of 60000 60000 60000 "1 / 2" "1 / 2" "1 / 2" 29999 30001] by auto
  obtain c where c: "mul64 (Fin m) (Fin 2) = Fin c" "59997 \<le> c" "c \<le> 60003"
    using mul64_between[of 29999 m 30001 2 2 2 59997 60003] m by auto
  show ?thesis
    using m c by (simp add: applicant_def)
qed

lemma zeroTenure_installment_60_below_ceiling:
  "\<not> fgt (installment64 (p_LoanAmountMin zeroTenureProduct) (monthlyRate zeroTenureProduct) 60)
         (mul64 (mul64 (Fin (u_MonthlyIncome applicant)) (Fin 0.5)) (Fin 2.0))"
proof -
  obtain r where r: "monthlyRate zeroTenureProduct = Fin r" "9 / 1000 \<le> r" "r \<le> 11 / 1000"
    using zeroTenure_rate by auto
  obtain e where e: "installment64 100000 (Fin r) 60 = Fin e" "e \<le> 5000"
    using installment_60_bounds[OF r(2,3)] by auto
  obtain c where c: "mul64 (mul64 (Fin (u_MonthlyIncome applicant)) (Fin 0.5)) (Fin 2.0) = Fin c"
      "59997 \<le> c"
    using applicant_ceiling by auto
  have P: "p_LoanAmountMin zeroTenureProduct = 100000"
    by (simp add: zeroTenureProduct_def)
  show ?thesis
    unfolding P r(1) e(1) c(1) using e(2) c(2) by simp
qed

lemma zeroTenure_installment_0_above_ceiling:
  "fgt (installment64 (p_LoanAmountMin zeroTenureProduct) (monthlyRate zeroTenureProduct)
          (nat (p_TenureMaxMonths zeroTenureProduct)))
       (mul64 (mul64 (Fin (u_MonthlyIncome applicant)) (Fin 0.5)) (Fin 2.0))"
proof -
  obtain r where r: "monthlyRate zeroTenureProduct = Fin r" "9 / 1000 \<le> r" "r \<le> 11 / 1000"
    using zeroTenure_rate by auto
  have e: "installment64 100000 (Fin r) 0 = PosInf"
    using installment_0_infinite[OF r(2,3)] .
  obtain c where c: "mul64 (mul64 (Fin (u_MonthlyIncome applicant)) (Fin 0.5)) (Fin 2.0) = Fin c"
    using applicant_ceiling by auto
  have P: "p_LoanAmountMin zeroTenureProduct = 100000"
    and n: "nat (p_TenureMaxMonths zeroTenureProduct) = 0"
    by (simp_all add: zeroTenureProduct_def)
  show ?thesis
    unfolding P n r(1) e c by simp
qed

lemma zeroTenure_passes: "passesBusinessRules applicant zeroTenureProduct"
proof -
  have "p_TenureMaxMonths zeroTenureProduct = 0"
    by (simp add: zeroTenureProduct_def)
  then show ?thesis
    using passesBusinessRules_formula[of zeroTenureProduct applicant]
      zeroTenure_rate_positive zeroTenure_installment_60_below_ceiling
    by simp
qed

text \<open>With an income of 1000 the ceiling is about 1000 and the same product is rejected.\<close>

lemma zeroTenure_rejects_low_income:
  "\<not> passesBusinessRules (applicant\<lparr>u_MonthlyIncome := 1000\<rparr>) zeroTenureProduct"
proof -
  obtain r where r: "monthlyRate zeroTenureProduct = Fin r" "9 / 1000 \<le> r" "r \<le> 11 / 1000"
    using zeroTenure_rate by auto
  obtain e where e: "installment64 100000 (Fin r) 60 = Fin e" "1100 \<le> e"
    using installment_60_bounds[OF r(2,3)] by auto
  obtain m where m: "mul64 (Fin 1000) (Fin (1 / 2)) = Fin m" "499 \<le> m" "m \<le> 501"
    using mul64_between[of 1000 1000 1000 "1 / 2" "1 / 2" "1 / 2" 499 501] by auto
  obtain c where c: "mul64 (Fin m) (Fin 2) = Fin c" "997 \<le> c" "c \<le> 1003"
    using mul64_between[of 499 m 501 2 2 2 997 1003] m by auto
  have P: "p_LoanAmountMin zeroTenureProduct = 100000"
    and t: "p_TenureMaxMonths zeroTenureProduct = 0"
    by (simp_all add: zeroTenureProduct_def)
  have "fgt (installment64 (p_LoanAmountMin zeroTenureProduct) (monthlyRate zeroTenureProduct) 60)
          (mul64 (mul64 (Fin (u_MonthlyIncome (applicant\<lparr>u_MonthlyIncome := 1000\<rparr>))) (Fin 0.5))
             (Fin 2.0))"
    unfolding P r(1) e(1) using m c e(2) by simp
  then show ?thesis
    using passesBusinessRules_formula[of zeroTenureProduct "applicant\<lparr>u_MonthlyIncome := 1000\<rparr>"]
      zeroTenure_rate_positive t
    by simp
qed

text \<open>
  C4, as amended. All numbers are binary64 numbers and every operation rounds. For a product
  whose monthly rate \<open>r\<close> (the maximum yearly rate in percent, divided by 100 and by 12) is
  positive and whose maximum tenure is not negative (and below \<open>2 ^ 53\<close>), Stage 2 rejects
  the candidate exactly when the computed value of \<open>P * r * (1 + r) ^ n / ((1 + r) ^ n - 1)\<close>
  exceeds the computed value of income times 0.5 times 2.0, where \<open>P\<close> is the minimum loan
  amount and \<open>n\<close> is the maximum tenure in months, or 60 when the maximum tenure is 0. When
  the monthly rate is zero the candidate is kept.
\<close>

theorem passesBusinessRules_affordability:
  "(fgt (monthlyRate product) (Fin 0)
      \<and> 0 \<le> p_TenureMaxMonths product \<and> p_TenureMaxMonths product < 2 ^ 53 \<longrightarrow>
      (passesBusinessRules user product \<longleftrightarrow>
         \<not> fgt (installment64 (p_LoanAmountMin product) (monthlyRate product)
                   (if p_TenureMaxMonths product = 0 then 60
                    else nat (p_TenureMaxMonths product)))
               (mul64 (mul64 (Fin (u_MonthlyIncome user)) (Fin 0.5)) (Fin 2.0))))
   \<and> (monthlyRate product = Fin 0 \<longrightarrow> passesBusinessRules user product)"
proof (intro conjI impI)
  assume "fgt (monthlyRate product) (Fin 0)
      \<and> 0 \<le> p_TenureMaxMonths product \<and> p_TenureMaxMonths product < 2 ^ 53"
  then show "passesBusinessRules user product \<longleftrightarrow>
         \<not> fgt (installment64 (p_LoanAmountMin product) (monthlyRate product)
                   (if p_TenureMaxMonths product = 0 then 60
                    else nat (p_TenureMaxMonths product)))
               (mul64 (mul64 (Fin (u_MonthlyIncome user)) (Fin 0.5)) (Fin 2.0))"
    using passesBusinessRules_formula by blast
next
  assume "monthlyRate product = Fin 0"
  then show "passesBusinessRules user product"
    by (simp add: passesBusinessRules_def)
qed

theorem passesBusinessRules_affordability_witness:
  "fgt (monthlyRate zeroTenureProduct) (Fin 0)
   \<and> 0 \<le> p_TenureMaxMonths zeroTenureProduct \<and> p_TenureMaxMonths zeroTenureProduct < 2 ^ 53
   \<and> passesBusinessRules applicant zeroTenureProduct
   \<and> \<not> fgt (installment64 (p_LoanAmountMin zeroTenureProduct) (monthlyRate zeroTenureProduct) 60)
            (mul64 (mul64 (Fin (u_MonthlyIncome applicant)) (Fin 0.5)) (Fin 2.0))
   \<and> monthlyRate (zeroTenureProduct\<lparr>p_InterestRateMax := 0\<rparr>) = Fin 0
   \<and> passesBusinessRules applicant (zeroTenureProduct\<lparr>p_InterestRateMax := 0\<rparr>)"
proof -
  have t: "p_TenureMaxMonths zeroTenureProduct = 0"
    by (simp add: zeroTenureProduct_def)
  have "passesBusinessRules applicant zeroTenureProduct"
    using passesBusinessRules_affordability[of zeroTenureProduct applicant]
      zeroTenure_rate_positive zeroTenure_installment_60_below_ceiling t
    by simp
  moreover have "passesBusinessRules applicant (zeroTenureProduct\<lparr>p_InterestRateMax := 0\<rparr>)"
    using passesBusinessRules_affordability[of "zeroTenureProduct\<lparr>p_InterestRateMax := 0\<rparr>" applicant]
      zero_rate
    by simp
  ultimately show ?thesis
    using zeroTenure_rate_positive zeroTenure_installment_60_below_ceiling zero_rate t
    by simp
qed

text \<open>
  C4 as it was stated takes \<open>n\<close> to be the maximum tenure. For \<^const>\<open>zeroTenureProduct\<close> that is 0:
  the monthly rate is positive and the formula with \<open>n = 0\<close> gives the positive infinity,
  above the ceiling of \<^const>\<open>applicant\<close>, yet the code keeps the candidate, because it computes with
  60 months.
\<close>

theorem passesBusinessRules_zero_tenure_counterexample:
  "fgt (monthlyRate zeroTenureProduct) (Fin 0)
   \<and> fgt (installment64 (p_LoanAmountMin zeroTenureProduct) (monthlyRate zeroTenureProduct)
            (nat (p_TenureMaxMonths zeroTenureProduct)))
          (mul64 (mul64 (Fin (u_MonthlyIncome applicant)) (Fin 0.5)) (Fin 2.0))
   \<and> passesBusinessRules applicant zeroTenureProduct"
  using zeroTenure_rate_positive zeroTenure_installment_0_above_ceiling zeroTenure_passes
  by simp


subsection \<open>Scores\<close>

lemma creditComponent_bounds: "0 \<le> creditComponent u p \<and> creditComponent u p \<le> 40"
  by (simp add: creditComponent_def Let_def)

lemma incomeComponent_bounds: "0 \<le> incomeComponent u p \<and> incomeComponent u p \<le> 30"
  by (simp add: incomeComponent_def Let_def)

lemma ageComponent_bounds: "0 \<le> ageComponent u p \<and> ageComponent u p \<le> 10"
  by (simp add: ageComponent_def Let_def abs_f64_def divide_nonneg_pos)

text \<open>The score of the pipeline, \<^verbatim>\<open>calculateEligibilityScore\<close>, is between 20 and 100 for every
  user and product.\<close>

lemma calculateEligibilityScore_bounds:
  "20 \<le> calculateEligibilityScore u p \<and> calculateEligibilityScore u p \<le> 100"
  using creditComponent_bounds[of u p] incomeComponent_bounds[of u p] ageComponent_bounds[of u p]
  by (simp add: calculateEligibilityScore_def Let_def)

lemma wrap64_id: "- (2 ^ 63) \<le> x \<Longrightarrow> x < 2 ^ 63 \<Longrightarrow> wrap64 x = x"
  by (simp add: wrap64_def)

text \<open>The second path, \<^verbatim>\<open>CalculateMatchScore\<close>, stays between 0 and 100 when the minimum
  income is positive and the credit score is in its valid range.\<close>

lemma CalculateMatchScore_bounds:
  assumes "0 < mc_MinMonthlyIncome c" and "300 \<le> mc_CreditScore c" and "mc_CreditScore c \<le> 900"
  shows "in_0_100 (CalculateMatchScore c)"
proof -
  have w: "wrap64 (mc_CreditScore c - 300) = mc_CreditScore c - 300"
    using assms by (intro wrap64_id) simp_all
  show ?thesis
    using assms
    by (simp add: CalculateMatchScore_def Let_def fdiv_def w divide_simps)
qed

text \<open>
  C5. The second scoring path divides the income by the minimum income without testing it.
  For an applicant without income and a product whose minimum income is 0 (a boundary
  input: the income equals the minimum) the ratio is 0 / 0, the running score becomes NaN
  and stays NaN through the final clamp, so the result is not a number between 0 and 100.
\<close>

theorem CalculateMatchScore_zero_income_is_NaN:
  "mc_MonthlyIncome zeroIncomeRow = 0 \<and> mc_MinMonthlyIncome zeroIncomeRow = 0
   \<and> mc_CreditScore zeroIncomeRow = 780 \<and> mc_MinCreditScore zeroIncomeRow = 700
   \<and> CalculateMatchScore zeroIncomeRow = NaN
   \<and> \<not> in_0_100 (CalculateMatchScore zeroIncomeRow)"
  by (simp add: CalculateMatchScore_def zeroIncomeRow_def scanRow_def applicant_def
        scenarioProduct_def fdiv_def wrap64_def)

section \<open>The ranker\<close>

text \<open>
  The inner loop, run over the indices below \<open>k\<close> on a list whose first \<open>k + 1\<close> entries
  are \<open>rest\<close>, is one \<open>bubble\<close> pass over \<open>rest\<close>; the entries behind stay where they are.
\<close>

lemma bubbleStep_Cons: "bubbleStep (Suc j) (x # xs) = x # bubbleStep j xs"
  by (simp add: bubbleStep_def)

lemma fold_bubbleStep_Cons:
  "fold bubbleStep (map Suc js) (x # xs) = x # fold bubbleStep js xs"
  by (induction js arbitrary: xs) (simp_all add: bubbleStep_Cons)

lemma bubbleStep_0:
  "bubbleStep 0 (x # y # zs) =
     (if c_EligibilityScore x < c_EligibilityScore y then y # x # zs else x # y # zs)"
  by (simp add: bubbleStep_def)

lemma fold_bubbleStep_Suc:
  "fold bubbleStep [0 ..< Suc k] (x # y # zs) =
     (if c_EligibilityScore x < c_EligibilityScore y
      then y # fold bubbleStep [0 ..< k] (x # zs)
      else x # fold bubbleStep [0 ..< k] (y # zs))"
proof -
  have "[0 ..< Suc k] = 0 # map Suc [0 ..< k]"
    by (simp add: upt_conv_Cons map_Suc_upt del: upt_Suc)
  then show ?thesis
    by (simp add: bubbleStep_0 fold_bubbleStep_Cons del: upt_Suc)
qed

lemma fold_bubbleStep_bubble:
  "Suc k = length rest \<Longrightarrow> fold bubbleStep [0 ..< k] (rest @ settled) = bubble rest @ settled"
proof (induction k arbitrary: rest)
  case 0
  then obtain x where "rest = [x]" by (cases rest) auto
  then show ?case by simp
next
  case (Suc k)
  then obtain x y zs where f: "rest = x # y # zs" and l: "length zs = k"
    by (cases rest; cases "tl rest") auto
  have 1: "fold bubbleStep [0 ..< k] ((x # zs) @ settled) = bubble (x # zs) @ settled"
    using l by (intro Suc.IH) simp
  have 2: "fold bubbleStep [0 ..< k] ((y # zs) @ settled) = bubble (y # zs) @ settled"
    using l by (intro Suc.IH) simp
  show ?case
    using 1 2 unfolding f by (simp add: fold_bubbleStep_Suc del: upt_Suc)
qed

text \<open>A pass rearranges the list, keeps the order of equal scores, and moves a candidate of
  least score to the end.\<close>

lemma length_bubble: "length (bubble xs) = length xs"
  by (induction xs rule: bubble.induct) simp_all

lemma mset_bubble: "mset (bubble xs) = mset xs"
  by (induction xs rule: bubble.induct) simp_all

lemma filter_bubble:
  "filter (\<lambda>c. c_EligibilityScore c = s) (bubble xs) = filter (\<lambda>c. c_EligibilityScore c = s) xs"
  by (induction xs rule: bubble.induct) auto

lemma bubble_Nil_iff: "bubble xs = [] \<longleftrightarrow> xs = []"
  using length_bubble[of xs] by (metis length_0_conv)

lemma last_bubble_min:
  "x \<in> set xs \<Longrightarrow> c_EligibilityScore (last (bubble xs)) \<le> c_EligibilityScore x"
proof (induction xs arbitrary: x rule: bubble.induct)
  case (1 a b zs)
  show ?case
  proof (cases "c_EligibilityScore a < c_EligibilityScore b")
    case True
    have l: "last (bubble (a # b # zs)) = last (bubble (a # zs))"
      using True by (simp add: bubble_Nil_iff)
    have "c_EligibilityScore (last (bubble (a # zs))) \<le> c_EligibilityScore a"
      using "1.IH"(1)[OF True, of a] by simp
    moreover have "x \<in> set (a # zs) \<Longrightarrow> c_EligibilityScore (last (bubble (a # zs))) \<le> c_EligibilityScore x"
      using "1.IH"(1)[OF True, of x] by simp
    ultimately show ?thesis using "1.prems" True unfolding l by auto
  next
    case False
    have l: "last (bubble (a # b # zs)) = last (bubble (b # zs))"
      using False by (simp add: bubble_Nil_iff)
    have "c_EligibilityScore (last (bubble (b # zs))) \<le> c_EligibilityScore b"
      using "1.IH"(2)[OF False, of b] by simp
    moreover have "x \<in> set (b # zs) \<Longrightarrow> c_EligibilityScore (last (bubble (b # zs))) \<le> c_EligibilityScore x"
      using "1.IH"(2)[OF False, of x] by simp
    ultimately show ?thesis using "1.prems" False unfolding l by auto
  qed
qed simp_all

text \<open>Each pass of the outer loop keeps the invariant and settles one more entry.\<close>

lemma length_bubbleStep: "length (bubbleStep j xs) = length xs"
  by (simp add: bubbleStep_def)

lemma length_fold_bubbleStep: "length (fold bubbleStep js xs) = length xs"
  by (induction js arbitrary: xs) (simp_all add: length_bubbleStep)

lemma length_bubbleInner: "length (bubbleInner i xs) = length xs"
  by (simp add: bubbleInner_def length_fold_bubbleStep)

lemma bubbleInner_bubble:
  assumes "length rest + length settled = n" and "length settled = i" and "rest \<noteq> []"
  shows "bubbleInner i (rest @ settled) = bubble rest @ settled"
proof -
  have "length (rest @ settled) - i - 1 = length rest - 1" using assms by simp
  moreover have "Suc (length rest - 1) = length rest" using assms by (cases rest) simp_all
  ultimately show ?thesis
    by (simp add: bubbleInner_def fold_bubbleStep_bubble)
qed

lemma passInvariant_step:
  assumes inv: "passInvariant cs m ys" and m: "Suc m < length cs"
  shows "passInvariant cs (Suc m) (bubbleInner m ys)"
proof -
  from inv obtain rest settled where ys: "ys = rest @ settled" and lb: "length settled = m"
    and sb: "sortedByScoreDesc settled"
    and fb: "\<forall>a \<in> set rest. \<forall>b \<in> set settled. c_EligibilityScore b \<le> c_EligibilityScore a"
    and ms: "mset ys = mset cs"
    and st: "\<forall>s. filter (\<lambda>c. c_EligibilityScore c = s) ys = filter (\<lambda>c. c_EligibilityScore c = s) cs"
    unfolding passInvariant_def by blast
  have len: "length ys = length cs" using ms by (metis size_mset)
  then have lf: "length rest = length cs - m" using ys lb by simp
  then have ne: "rest \<noteq> []" using m by auto
  have step: "bubbleInner m ys = bubble rest @ settled"
    unfolding ys using lb ne by (intro bubbleInner_bubble[where n = "length rest + length settled"]) simp_all
  have bne: "bubble rest \<noteq> []" using ne by (simp add: bubble_Nil_iff)
  define f' where "f' = butlast (bubble rest)"
  define mn where "mn = last (bubble rest)"
  have bf: "bubble rest = f' @ [mn]" using bne by (simp add: f'_def mn_def)
  have setf: "set (f' @ [mn]) = set rest"
    using mset_bubble[of rest] bf by (metis set_mset_mset)
  have mn_min: "\<forall>x \<in> set rest. c_EligibilityScore mn \<le> c_EligibilityScore x"
    using last_bubble_min[of _ rest] by (simp add: mn_def)
  have mn_in: "mn \<in> set rest" using setf by auto
  have f'_sub: "set f' \<subseteq> set rest" using setf by auto
  have 1: "bubbleInner m ys = f' @ (mn # settled)" using step bf by simp
  have 2: "length (mn # settled) = Suc m" using lb by simp
  have 3: "sortedByScoreDesc (mn # settled)"
    using sb fb mn_in by (auto simp: sortedByScoreDesc_def)
  have 4: "\<forall>a \<in> set f'. \<forall>b \<in> set (mn # settled). c_EligibilityScore b \<le> c_EligibilityScore a"
    using f'_sub mn_min fb by auto
  have 5: "mset (bubbleInner m ys) = mset cs"
    unfolding step using ms ys by (simp add: mset_bubble)
  have 6: "\<forall>s. filter (\<lambda>c. c_EligibilityScore c = s) (bubbleInner m ys) = filter (\<lambda>c. c_EligibilityScore c = s) cs"
    unfolding step using st ys by (simp add: filter_bubble)
  show ?thesis
    unfolding passInvariant_def using 1 2 3 4 5 6 by blast
qed

lemma passInvariant_fold:
  "m < length cs \<Longrightarrow> passInvariant cs m (fold bubbleInner [0 ..< m] cs)"
proof (induction m)
  case 0
  show ?case by (simp add: passInvariant_def sortedByScoreDesc_def)
next
  case (Suc m)
  then have "passInvariant cs m (fold bubbleInner [0 ..< m] cs)" by simp
  from passInvariant_step[OF this Suc.prems] show ?case by simp
qed

lemma bubbleSort_properties:
  "sortedByScoreDesc (bubbleSort cs) \<and> mset (bubbleSort cs) = mset cs
   \<and> (\<forall>s. filter (\<lambda>c. c_EligibilityScore c = s) (bubbleSort cs)
            = filter (\<lambda>c. c_EligibilityScore c = s) cs)"
proof (cases cs)
  case Nil
  then show ?thesis by (simp add: bubbleSort_def sortedByScoreDesc_def)
next
  case (Cons c cs')
  then have "length cs - 1 < length cs" by simp
  from passInvariant_fold[OF this]
  have inv: "passInvariant cs (length cs - 1) (bubbleSort cs)" by (simp add: bubbleSort_def)
  then obtain rest settled where ys: "bubbleSort cs = rest @ settled" and lb: "length settled = length cs - 1"
    and sb: "sortedByScoreDesc settled"
    and fb: "\<forall>a \<in> set rest. \<forall>b \<in> set settled. c_EligibilityScore b \<le> c_EligibilityScore a"
    and ms: "mset (bubbleSort cs) = mset cs"
    and st: "\<forall>s. filter (\<lambda>c. c_EligibilityScore c = s) (bubbleSort cs) = filter (\<lambda>c. c_EligibilityScore c = s) cs"
    unfolding passInvariant_def by blast
  have "sortedByScoreDesc (rest @ settled)"
  proof -
    have "length (rest @ settled) = length cs" using ms ys by (metis size_mset)
    then have "length rest = 1" using lb Cons by simp
    then obtain a where "rest = [a]" by (cases rest) auto
    then show ?thesis using sb fb by (auto simp: sortedByScoreDesc_def)
  qed
  then show ?thesis using ys ms st by simp
qed

text \<open>
  C6, as amended. When there are at most \<open>limit\<close> candidates (the pipeline's limit is
  100), the ranker returns them unchanged, in their original order and hence not
  necessarily by score. When there are more, it returns the first \<open>limit\<close> entries of the
  bubble-sorted list, and that list is a rearrangement of the candidates, by score
  descending, in which candidates of equal score keep their original relative order. In
  both cases at most \<open>limit\<close> candidates are returned.
\<close>

theorem selectTopCandidates_ranked:
  "(length candidates \<le> limit \<longrightarrow> selectTopCandidates candidates limit = candidates)
   \<and> (limit < length candidates \<longrightarrow>
        selectTopCandidates candidates limit = take limit (bubbleSort candidates)
        \<and> mset (bubbleSort candidates) = mset candidates
        \<and> sorted_wrt (\<lambda>a b. c_EligibilityScore a \<ge> c_EligibilityScore b) (bubbleSort candidates)
        \<and> (\<forall>s. filter (\<lambda>c. c_EligibilityScore c = s) (bubbleSort candidates)
                 = filter (\<lambda>c. c_EligibilityScore c = s) candidates)
        \<and> sorted_wrt (\<lambda>a b. c_EligibilityScore a \<ge> c_EligibilityScore b)
             (selectTopCandidates candidates limit))
   \<and> length (selectTopCandidates candidates limit) \<le> limit"
proof -
  note P = bubbleSort_properties[of candidates, unfolded sortedByScoreDesc_def]
  have "sorted_wrt (\<lambda>a b. c_EligibilityScore a \<ge> c_EligibilityScore b)
          (take limit (bubbleSort candidates))"
    using P by (simp add: sorted_wrt_take)
  then show ?thesis
    using P by (simp add: selectTopCandidates_def)
qed

theorem selectTopCandidates_ranked_witness:
  "selectTopCandidates [scored 1 10 10, scored 2 10 50, scored 3 10 50, scored 4 10 70] 2
     = [scored 4 10 70, scored 2 10 50]
   \<and> bubbleSort [scored 1 10 10, scored 2 10 50, scored 3 10 50, scored 4 10 70]
     = [scored 4 10 70, scored 2 10 50, scored 3 10 50, scored 1 10 10]"
proof -
  have l: "2 < length [scored 1 10 10, scored 2 10 50, scored 3 10 50, scored 4 10 70]"
    by simp
  have b: "bubbleSort [scored 1 10 10, scored 2 10 50, scored 3 10 50, scored 4 10 70]
     = [scored 4 10 70, scored 2 10 50, scored 3 10 50, scored 1 10 10]"
    by (simp add: bubbleSort_def bubbleInner_def bubbleStep_def scored_def upt_rec)
  from selectTopCandidates_ranked[of "[scored 1 10 10, scored 2 10 50, scored 3 10 50, scored 4 10 70]" 2] l
  have "selectTopCandidates [scored 1 10 10, scored 2 10 50, scored 3 10 50, scored 4 10 70] 2
          = take 2 (bubbleSort [scored 1 10 10, scored 2 10 50, scored 3 10 50, scored 4 10 70])"
    by blast
  then show ?thesis using b by (simp add: numeral_2_eq_2)
qed

text \<open>C6 as it was stated fails for a short list: two candidates in ascending order of
  score come back in that order.\<close>

theorem selectTopCandidates_unsorted_counterexample:
  "selectTopCandidates [scored 1 10 10, scored 2 10 50] 100 = [scored 1 10 10, scored 2 10 50]
   \<and> \<not> sorted_wrt (\<lambda>a b. c_EligibilityScore a \<ge> c_EligibilityScore b)
          (selectTopCandidates [scored 1 10 10, scored 2 10 50] 100)"
  by (simp add: selectTopCandidates_def scored_def)

section \<open>Stage 3\<close>

lemma dom_userMap_fold:
  "dom (fold (\<lambda>u m. m(u_ID u \<mapsto> u)) us m) = dom m \<union> u_ID ` set us"
  by (induction us arbitrary: m) auto

lemma userMap_known: "k \<in> u_ID ` set users \<Longrightarrow> \<exists>u. userMap users k = Some u"
  using dom_userMap_fold[of users Map.empty] by (auto simp: userMap_def dom_def)

lemma dom_productMap_fold:
  "dom (fold (\<lambda>p m. m(p_ID p \<mapsto> p)) ps m) = dom m \<union> p_ID ` set ps"
  by (induction ps arbitrary: m) auto

lemma productMap_known: "k \<in> p_ID ` set products \<Longrightarrow> \<exists>p. productMap products k = Some p"
  using dom_productMap_fold[of products Map.empty] by (auto simp: productMap_def dom_def)

text \<open>The loop over two lists in a row.\<close>

lemma llmCheckLoop_append:
  "llmCheckLoop body (xs @ ys) st
     = (case llmCheckLoop body xs st of None \<Rightarrow> None | Some st' \<Rightarrow> llmCheckLoop body ys st')"
  by (induction xs arbitrary: st) (simp_all split: option.splits)

text \<open>Each candidate adds its own contribution to the end of \<open>passed\<close>, whatever came before;
  whether \<^verbatim>\<open>EvaluateMatch\<close> panics does not depend on what came before either.\<close>

lemma llmCheckBody_fst:
  "map_option fst (llmCheckBody k x j um pm c (passed, l))
     = map_option (\<lambda>p. passed @ p) (map_option fst (llmCheckBody k x j um pm c ([], None)))"
  by (simp add: llmCheckBody_def Let_def split: option.splits sum.splits)

lemma llmCheckLoop_fst:
  "map_option fst (llmCheckLoop (llmCheckBody k x j um pm) cs (passed, l))
     = map_option (\<lambda>p. passed @ p)
         (map_option fst (llmCheckLoop (llmCheckBody k x j um pm) cs ([], None)))"
proof (induction cs arbitrary: passed l)
  case Nil
  show ?case by simp
next
  case (Cons c cs)
  let ?body = "llmCheckBody k x j um pm"
  show ?case
  proof (cases "?body c ([], None)")
    case None
    then have "?body c (passed, l) = None"
      using llmCheckBody_fst[of k x j um pm c passed l] by simp
    then show ?thesis using None by simp
  next
    case (Some st0)
    obtain q l0 where st0: "st0 = (q, l0)" by (cases st0)
    obtain st1 where st1: "?body c (passed, l) = Some st1"
      using llmCheckBody_fst[of k x j um pm c passed l] Some by (cases "?body c (passed, l)") simp_all
    obtain p1 l1 where p1: "st1 = (p1, l1)" by (cases st1)
    have p1_eq: "p1 = passed @ q"
      using llmCheckBody_fst[of k x j um pm c passed l] Some st0 st1 p1 by simp
    have "map_option fst (llmCheckLoop ?body (c # cs) (passed, l))
            = map_option fst (llmCheckLoop ?body cs (passed @ q, l1))"
      using st1 p1 p1_eq by simp
    also have "\<dots> = map_option (\<lambda>p. (passed @ q) @ p)
                       (map_option fst (llmCheckLoop ?body cs ([], None)))"
      by (rule Cons.IH)
    finally have lhs: "map_option fst (llmCheckLoop ?body (c # cs) (passed, l))
            = map_option (\<lambda>p. (passed @ q) @ p)
                (map_option fst (llmCheckLoop ?body cs ([], None)))" .
    have "map_option fst (llmCheckLoop ?body (c # cs) ([], None))
            = map_option fst (llmCheckLoop ?body cs (q, l0))"
      using Some st0 by simp
    also have "\<dots> = map_option (\<lambda>p. q @ p) (map_option fst (llmCheckLoop ?body cs ([], None)))"
      by (rule Cons.IH)
    finally have rhs: "map_option fst (llmCheckLoop ?body (c # cs) ([], None))
            = map_option (\<lambda>p. q @ p) (map_option fst (llmCheckLoop ?body cs ([], None)))" .
    show ?thesis
      unfolding lhs rhs by (simp add: option.map_comp comp_def)
  qed
qed

lemma llmCheckBody_error:
  assumes "um (c_UserID c) = Some user" and "pm (c_ProductID c) = Some product"
    and "EvaluateMatch k x j user product = Some (Inl err)"
  shows "llmCheckBody k x j um pm c (passed, l)
           = Some (passed @ (if c_EligibilityScore c \<ge> 60
                             then [c\<lparr>c_LLMCheckPassed := True,
                                     c_LLMReasoning :=
                                       ''LLM check skipped due to API error, high score approved''\<rparr>]
                             else []),
                   Some err)"
  using assms by (simp add: llmCheckBody_def)

text \<open>
  C7, as amended. A candidate whose user and product are found and whose call to
  \<^verbatim>\<open>EvaluateMatch\<close> returns an error is accepted, marked as passed and with the note of the
  automatic fallback, exactly when its Stage-2 score is at least 60 (a score of exactly 60
  is accepted), and is dropped otherwise: wherever the candidate stands in the list, its
  contribution to the result is the marked candidate or nothing, between the results for
  the candidates before and after it. (Stage 3 returns no result at all when the call for
  one of the other candidates panics.)
\<close>

theorem llmCheck_error_fallback:
  assumes "userMap users (c_UserID c) = Some user"
    and "productMap products (c_ProductID c) = Some product"
    and "EvaluateMatch apiKey transport unmarshal user product = Some (Inl err)"
  shows "map_option fst (llmCheck apiKey transport unmarshal (before @ c # after) users products)
           = (case (map_option fst (llmCheck apiKey transport unmarshal before users products),
                    map_option fst (llmCheck apiKey transport unmarshal after users products)) of
                (Some accepted_before, Some accepted_after) \<Rightarrow>
                  Some (accepted_before
                        @ (if c_EligibilityScore c \<ge> 60
                           then [c\<lparr>c_LLMCheckPassed := True,
                                   c_LLMReasoning :=
                                     ''LLM check skipped due to API error, high score approved''\<rparr>]
                           else [])
                        @ accepted_after)
              | _ \<Rightarrow> None)"
proof -
  let ?body = "llmCheckBody apiKey transport unmarshal (userMap users) (productMap products)"
  let ?own = "if c_EligibilityScore c \<ge> 60
              then [c\<lparr>c_LLMCheckPassed := True,
                      c_LLMReasoning :=
                        ''LLM check skipped due to API error, high score approved''\<rparr>]
              else []"
  show ?thesis
  proof (cases "llmCheckLoop ?body before ([], None)")
    case None
    then show ?thesis
      by (simp add: llmCheck_def llmCheckLoop_append)
  next
    case (Some st)
    obtain p1 l1 where st: "st = (p1, l1)" by (cases st)
    have step: "?body c (p1, l1) = Some (p1 @ ?own, Some err)"
      using assms by (rule llmCheckBody_error)
    have "map_option fst (llmCheckLoop ?body (before @ c # after) ([], None))
            = map_option fst (llmCheckLoop ?body after (p1 @ ?own, Some err))"
      using Some st step by (simp only: llmCheckLoop_append llmCheckLoop.simps option.case)
    also have "\<dots> = map_option (\<lambda>p. (p1 @ ?own) @ p)
                       (map_option fst (llmCheckLoop ?body after ([], None)))"
      by (rule llmCheckLoop_fst)
    finally have "map_option fst (llmCheckLoop ?body (before @ c # after) ([], None))
            = map_option (\<lambda>p. (p1 @ ?own) @ p)
                (map_option fst (llmCheckLoop ?body after ([], None)))" .
    then show ?thesis
      using Some st
      by (cases "llmCheckLoop ?body after ([], None)") (simp_all add: llmCheck_def)
  qed
qed

theorem llmCheck_error_fallback_witness:
  "map_option fst (llmCheck ''key'' failingTransport noUnmarshal
       [scored 1 10 59.5, scored 1 10 75] [applicant] [scenarioProduct])
     = Some [(scored 1 10 75)\<lparr>c_LLMCheckPassed := True,
          c_LLMReasoning := ''LLM check skipped due to API error, high score approved''\<rparr>]"
proof -
  have 1: "userMap [applicant] (c_UserID (scored 1 10 59.5)) = Some applicant"
    by (simp add: userMap_def scored_def applicant_def)
  have 2: "productMap [scenarioProduct] (c_ProductID (scored 1 10 59.5)) = Some scenarioProduct"
    by (simp add: productMap_def scored_def scenarioProduct_def)
  have 6: "userMap [applicant] (c_UserID (scored 1 10 75)) = Some applicant"
    by (simp add: userMap_def scored_def applicant_def)
  have 7: "productMap [scenarioProduct] (c_ProductID (scored 1 10 75)) = Some scenarioProduct"
    by (simp add: productMap_def scored_def scenarioProduct_def)
  have 3: "EvaluateMatch ''key'' failingTransport noUnmarshal applicant scenarioProduct
             = Some (Inl (Error ''API returned status 503''))"
    by (simp add: EvaluateMatch_def failingTransport_def)
  have 5: "map_option fst (llmCheck ''key'' failingTransport noUnmarshal [] [applicant] [scenarioProduct])
             = Some []"
    by (simp add: llmCheck_def)
  have 9: "map_option fst (llmCheck ''key'' failingTransport noUnmarshal [scored 1 10 75]
              [applicant] [scenarioProduct])
             = Some [(scored 1 10 75)\<lparr>c_LLMCheckPassed := True,
                  c_LLMReasoning := ''LLM check skipped due to API error, high score approved''\<rparr>]"
    using llmCheck_error_fallback[OF 6 7 3, of "[]" "[]"] unfolding 5 by (simp add: scored_def)
  show ?thesis
    using llmCheck_error_fallback[OF 1 2 3, of "[]" "[scored 1 10 75]"] unfolding 5 9
    by (simp add: scored_def)
qed

text \<open>C7 as it was stated accepts only above 60: the candidate with score exactly 60, whose
  call fails, is accepted.\<close>

theorem llmCheck_score_60_counterexample:
  "c_EligibilityScore candidate60 = 60 \<and> \<not> (c_EligibilityScore candidate60 > 60)
   \<and> EvaluateMatch ''key'' failingTransport noUnmarshal applicant scenarioProduct
       = Some (Inl (Error ''API returned status 503''))
   \<and> map_option fst (llmCheck ''key'' failingTransport noUnmarshal [candidate60] [applicant]
        [scenarioProduct])
     = Some [candidate60\<lparr>c_LLMCheckPassed := True,
          c_LLMReasoning := ''LLM check skipped due to API error, high score approved''\<rparr>]"
  by (simp add: llmCheck_def llmCheckBody_def userMap_def productMap_def candidate60_def
        scored_def EvaluateMatch_def failingTransport_def applicant_def scenarioProduct_def)

subsection \<open>A reply without content\<close>

text \<open>
  A reply with status 200 whose first candidate has no \<^verbatim>\<open>content\<close> makes the unchecked type
  assertion of \<^verbatim>\<open>parseResponse\<close> panic: \<^verbatim>\<open>EvaluateMatch\<close> returns neither a response nor an
  error, and Stage 3 returns nothing.
\<close>

lemma EvaluateMatch_panics:
  "EvaluateMatch ''key'' replyWithoutContent noUnmarshal applicant scenarioProduct = None"
  by (simp add: EvaluateMatch_def replyWithoutContent_def parseResponse_def lookupKey_def)

lemma llmCheck_panics:
  "llmCheck ''key'' replyWithoutContent noUnmarshal [candidate60] [applicant] [scenarioProduct]
     = None"
  using EvaluateMatch_panics
  by (simp add: llmCheck_def llmCheckBody_def userMap_def productMap_def candidate60_def
        scored_def applicant_def scenarioProduct_def)

subsection \<open>No API key\<close>

lemma llmCheckBody_nokey:
  assumes "um (c_UserID c) = Some u" and "pm (c_ProductID c) = Some p"
  shows "llmCheckBody [] x j um pm c (passed, l)
           = Some (passed @ [c\<lparr>c_LLMCheckPassed := True,
                           c_LLMReasoning := ''LLM check skipped - no API key configured'',
                           c_LLMConfidence := 0.7\<rparr>], l)"
  using assms by (simp add: llmCheckBody_def EvaluateMatch_def)

lemma llmCheckLoop_nokey:
  assumes "\<forall>c \<in> set cs. (\<exists>u. um (c_UserID c) = Some u) \<and> (\<exists>p. pm (c_ProductID c) = Some p)"
  shows "llmCheckLoop (llmCheckBody [] x j um pm) cs (passed, l)
       = Some (passed @ map (\<lambda>c. c\<lparr>c_LLMCheckPassed := True,
                            c_LLMReasoning := ''LLM check skipped - no API key configured'',
                            c_LLMConfidence := 0.7\<rparr>) cs, l)"
  using assms
proof (induction cs arbitrary: passed)
  case Nil
  then show ?case by simp
next
  case (Cons c cs)
  from Cons.prems obtain u p where up: "um (c_UserID c) = Some u" "pm (c_ProductID c) = Some p"
    by auto
  have rest: "\<forall>c \<in> set cs. (\<exists>u. um (c_UserID c) = Some u) \<and> (\<exists>p. pm (c_ProductID c) = Some p)"
    using Cons.prems by simp
  have step: "llmCheckBody [] x j um pm c (passed, l)
      = Some (passed @ [c\<lparr>c_LLMCheckPassed := True,
                      c_LLMReasoning := ''LLM check skipped - no API key configured'',
                      c_LLMConfidence := 0.7\<rparr>], l)"
    using up by (rule llmCheckBody_nokey)
  show ?case
    by (simp only: llmCheckLoop.simps option.case step Cons.IH[OF rest] list.map append_assoc
          append.simps)
qed

text \<open>
  C8. Without an API key, Stage 3 accepts every candidate it is given (every candidate
  that refers to one of the given users and one of the given products, as all candidates of
  Stages 1 and 2 do): it returns, the result is the whole list, in order, each candidate
  marked as passed with confidence 0.7 and the note that the check was skipped, and no error
  is reported. In particular the result has the length of the input, so it is not empty
  unless the input is.
\<close>

theorem llmCheck_without_api_key:
  assumes "\<forall>c \<in> set candidates.
             c_UserID c \<in> u_ID ` set users \<and> c_ProductID c \<in> p_ID ` set products"
  shows "llmCheck [] transport unmarshal candidates users products
           = Some (map (\<lambda>c. c\<lparr>c_LLMCheckPassed := True,
                            c_LLMReasoning := ''LLM check skipped - no API key configured'',
                            c_LLMConfidence := 0.7\<rparr>) candidates, None)
         \<and> map_option (\<lambda>r. length (fst r))
             (llmCheck [] transport unmarshal candidates users products)
           = Some (length candidates)"
proof -
  have "\<forall>c \<in> set candidates. (\<exists>u. userMap users (c_UserID c) = Some u)
           \<and> (\<exists>p. productMap products (c_ProductID c) = Some p)"
    using assms userMap_known productMap_known by blast
  from llmCheckLoop_nokey[OF this, of transport unmarshal "[]" None]
  have "llmCheck [] transport unmarshal candidates users products
           = Some (map (\<lambda>c. c\<lparr>c_LLMCheckPassed := True,
                            c_LLMReasoning := ''LLM check skipped - no API key configured'',
                            c_LLMConfidence := 0.7\<rparr>) candidates, None)"
    by (simp only: llmCheck_def append_Nil)
  then show ?thesis by simp
qed

theorem llmCheck_without_api_key_witness:
  "llmCheck [] failingTransport noUnmarshal [scored 1 10 20, scored 1 10 75] [applicant]
       [scenarioProduct]
     = Some ([(scored 1 10 20)\<lparr>c_LLMCheckPassed := True,
                      c_LLMReasoning := ''LLM check skipped - no API key configured'',
                      c_LLMConfidence := 0.7\<rparr>,
         (scored 1 10 75)\<lparr>c_LLMCheckPassed := True,
                      c_LLMReasoning := ''LLM check skipped - no API key configured'',
                      c_LLMConfidence := 0.7\<rparr>], None)"
proof -
  have h: "\<forall>c \<in> set [scored 1 10 20, scored 1 10 75].
             c_UserID c \<in> u_ID ` set [applicant] \<and> c_ProductID c \<in> p_ID ` set [scenarioProduct]"
    by (simp add: scored_def applicant_def scenarioProduct_def)
  show ?thesis
    using llmCheck_without_api_key[OF h, of failingTransport noUnmarshal] by simp
qed

subsection \<open>Stage 3 inside the pipeline\<close>

lemma sqlPrefilter_ids:
  assumes "c \<in> set (sqlPrefilter users products)"
  shows "c_UserID c \<in> u_ID ` set users \<and> c_ProductID c \<in> p_ID ` set products"
proof -
  from assms obtain u p where "u \<in> set users" "p \<in> set products" "c = newCandidate u p"
    by (auto simp: sqlPrefilter_def fold_sqlPrefilter_users)
  then show ?thesis by (simp add: newCandidate_def)
qed

lemma logicFilterBody_ids:
  assumes "\<forall>c \<in> set filtered. P (c_UserID c) (c_ProductID c)" and "P (c_UserID c) (c_ProductID c)"
  shows "\<forall>c' \<in> set (logicFilterBody um pm c filtered). P (c_UserID c') (c_ProductID c')"
  using assms by (auto simp: logicFilterBody_def split: option.splits)

lemma fold_logicFilterBody_ids:
  assumes "\<forall>c \<in> set filtered. P (c_UserID c) (c_ProductID c)"
    and "\<forall>c \<in> set cs. P (c_UserID c) (c_ProductID c)"
  shows "\<forall>c' \<in> set (fold (logicFilterBody um pm) cs filtered). P (c_UserID c') (c_ProductID c')"
  using assms
proof (induction cs arbitrary: filtered)
  case Nil
  then show ?case by simp
next
  case (Cons c cs)
  have "\<forall>c' \<in> set (logicFilterBody um pm c filtered). P (c_UserID c') (c_ProductID c')"
    using Cons.prems by (intro logicFilterBody_ids) simp_all
  from Cons.IH[OF this] Cons.prems(2) show ?case by simp
qed

lemma selectTopCandidates_subset: "set (selectTopCandidates cs limit) \<subseteq> set cs"
proof -
  have "set (bubbleSort cs) = set cs"
    using bubbleSort_properties[of cs] by (metis set_mset_mset)
  then show ?thesis
    using set_take_subset[of limit "bubbleSort cs"] by (auto simp: selectTopCandidates_def)
qed

text \<open>The candidates that reach Stage 3 in the pipeline refer to the given users and products.\<close>

lemma stage3_input_known:
  "\<forall>c \<in> set (selectTopCandidates (logicFilter (sqlPrefilter users products) users products) limit).
      c_UserID c \<in> u_ID ` set users \<and> c_ProductID c \<in> p_ID ` set products"
proof -
  have "\<forall>c \<in> set (logicFilter (sqlPrefilter users products) users products).
      c_UserID c \<in> u_ID ` set users \<and> c_ProductID c \<in> p_ID ` set products"
    unfolding logicFilter_def
    by (rule fold_logicFilterBody_ids[where P = "\<lambda>uid pid. uid \<in> u_ID ` set users \<and> pid \<in> p_ID ` set products"])
       (simp_all add: sqlPrefilter_ids)
  then show ?thesis using selectTopCandidates_subset by blast
qed

lemma pipeline_without_api_key:
  "llmCheck [] transport unmarshal
      (selectTopCandidates (logicFilter (sqlPrefilter users products) users products) limit)
      users products
     = Some (map (\<lambda>c. c\<lparr>c_LLMCheckPassed := True,
                      c_LLMReasoning := ''LLM check skipped - no API key configured'',
                      c_LLMConfidence := 0.7\<rparr>)
            (selectTopCandidates (logicFilter (sqlPrefilter users products) users products) limit),
        None)"
proof -
  have "\<forall>c \<in> set (selectTopCandidates (logicFilter (sqlPrefilter users products) users products) limit).
          (\<exists>u. userMap users (c_UserID c) = Some u)
           \<and> (\<exists>p. productMap products (c_ProductID c) = Some p)"
    using stage3_input_known[of users products limit] userMap_known productMap_known by blast
  from llmCheckLoop_nokey[OF this, of transport unmarshal "[]" None]
  show ?thesis by (simp only: llmCheck_def append_Nil)
qed

section \<open>Match records\<close>

lemma createMatches_fold:
  "n \<le> length cs \<Longrightarrow> length ms = length cs \<Longrightarrow>
   fold (\<lambda>i matches. matches[i := Some (newMatch (cs ! i))]) [0 ..< n] ms
     = map (\<lambda>c. Some (newMatch c)) (take n cs) @ drop n ms"
proof (induction n)
  case 0
  then show ?case by simp
next
  case (Suc n)
  then have n: "n < length cs" by simp
  have "fold (\<lambda>i matches. matches[i := Some (newMatch (cs ! i))]) [0 ..< Suc n] ms
      = (map (\<lambda>c. Some (newMatch c)) (take n cs) @ drop n ms)[n := Some (newMatch (cs ! n))]"
    using Suc by simp
  also have "\<dots> = map (\<lambda>c. Some (newMatch c)) (take n cs)
                    @ (drop n ms)[0 := Some (newMatch (cs ! n))]"
    using n by (simp add: list_update_append)
  also have "(drop n ms)[0 := Some (newMatch (cs ! n))]
               = Some (newMatch (cs ! n)) # drop (Suc n) ms"
    using n Suc.prems by (simp add: Cons_nth_drop_Suc[symmetric])
  also have "map (\<lambda>c. Some (newMatch c)) (take n cs) @ Some (newMatch (cs ! n)) # drop (Suc n) ms
     = map (\<lambda>c. Some (newMatch c)) (take (Suc n) cs) @ drop (Suc n) ms"
    using n by (simp add: take_Suc_conv_app_nth)
  finally show ?case .
qed

lemma createMatches_map: "createMatches cs = map (\<lambda>c. Some (newMatch c)) cs"
  by (simp add: createMatches_def createMatches_fold)

text \<open>
  C10. \<^verbatim>\<open>createMatches\<close> fills every entry of its result: the result has one match per
  candidate, in order, each with status "eligible" and match source "llm_check". The
  candidate list is arbitrary, so this holds as well for candidates that Stage 3 accepted
  through the fallback after an error or through the answer given without an API key:
  the recorded source is the same for all of them.
\<close>

theorem createMatches_eligible_llm_check:
  "createMatches candidates = map (\<lambda>c. Some (newMatch c)) candidates
   \<and> length (createMatches candidates) = length candidates
   \<and> map (map_option m_Status) (createMatches candidates)
       = replicate (length candidates) (Some ''eligible'')
   \<and> map (map_option m_MatchSource) (createMatches candidates)
       = replicate (length candidates) (Some ''llm_check'')"
  by (simp add: createMatches_map newMatch_def o_def map_replicate_const
        MatchStatusEligible_def MatchSourceLLMCheck_def)

section \<open>The orchestrator\<close>

text \<open>The three fatal exits, and the two other ways out.\<close>

lemma ProcessNewUsers_users_failure:
  assumes "getByIDs userIDs = Inl e"
  shows "ProcessNewUsers getByIDs getAllActive apiKey transport unmarshal bulkInsert userIDs
           = Some (None, Some (Wrap ''failed to get users'' e))"
  using assms by (simp add: ProcessNewUsers_def)

lemma ProcessNewUsers_products_failure:
  assumes "getByIDs userIDs = Inr users" and "getAllActive = Inl e"
  shows "ProcessNewUsers getByIDs getAllActive apiKey transport unmarshal bulkInsert userIDs
           = Some (None, Some (Wrap ''failed to get products'' e))"
  using assms by (simp add: ProcessNewUsers_def)

lemma ProcessNewUsers_persist_failure:
  assumes "getByIDs userIDs = Inr users" and "getAllActive = Inr products"
    and "llmCheck apiKey transport unmarshal
           (selectTopCandidates (logicFilter (sqlPrefilter users products) users products) 100)
           users products = Some (finalCandidates, llmErr)"
    and "snd (snd (bulkInsert (createMatches finalCandidates))) = Some e"
  shows "ProcessNewUsers getByIDs getAllActive apiKey transport unmarshal bulkInsert userIDs
           = Some (None, Some (Wrap ''failed to save matches'' e))"
  using assms by (simp add: ProcessNewUsers_def Let_def)

lemma ProcessNewUsers_success:
  assumes "getByIDs userIDs = Inr users" and "getAllActive = Inr products"
    and "llmCheck apiKey transport unmarshal
           (selectTopCandidates (logicFilter (sqlPrefilter users products) users products) 100)
           users products = Some (finalCandidates, llmErr)"
    and "snd (snd (bulkInsert (createMatches finalCandidates))) = None"
  shows "\<exists>summary.
           ProcessNewUsers getByIDs getAllActive apiKey transport unmarshal bulkInsert userIDs
             = Some (Some summary, None)
           \<and> res_TotalUsers summary = length users
           \<and> res_TotalProducts summary = length products
           \<and> res_TotalPairs summary = length users * length products
           \<and> res_SQLPrefilterPassed summary = length (sqlPrefilter users products)
           \<and> res_LogicFilterPassed summary
               = length (logicFilter (sqlPrefilter users products) users products)
           \<and> res_LLMCheckPassed summary = length finalCandidates
           \<and> res_FinalMatches summary = length finalCandidates"
  using assms
  by (simp add: ProcessNewUsers_def Let_def createMatches_map split: option.splits)

text \<open>When Stage 3 panics the function does not return: the caller gets neither a summary
  nor an error.\<close>

lemma ProcessNewUsers_panic:
  assumes "getByIDs userIDs = Inr users" and "getAllActive = Inr products"
    and "llmCheck apiKey transport unmarshal
           (selectTopCandidates (logicFilter (sqlPrefilter users products) users products) 100)
           users products = None"
  shows "ProcessNewUsers getByIDs getAllActive apiKey transport unmarshal bulkInsert userIDs
           = None"
  using assms by (simp add: ProcessNewUsers_def Let_def)

text \<open>
  C9, as amended. At each of its three fatal exits \<^verbatim>\<open>ProcessNewUsers\<close> returns no summary (a
  nil pointer) together with the wrapped error: when the users cannot be read, when the
  products cannot be read, and when Stage 3 has returned and saving the matches fails. The
  counts gathered before the failure are not returned.
\<close>

theorem ProcessNewUsers_outcomes:
  "(getByIDs userIDs = Inl e \<longrightarrow>
      ProcessNewUsers getByIDs getAllActive apiKey transport unmarshal bulkInsert userIDs
        = Some (None, Some (Wrap ''failed to get users'' e)))
   \<and> (getByIDs userIDs = Inr users \<and> getAllActive = Inl e \<longrightarrow>
      ProcessNewUsers getByIDs getAllActive apiKey transport unmarshal bulkInsert userIDs
        = Some (None, Some (Wrap ''failed to get products'' e)))
   \<and> (getByIDs userIDs = Inr users \<and> getAllActive = Inr products
       \<and> llmCheck apiKey transport unmarshal
           (selectTopCandidates (logicFilter (sqlPrefilter users products) users products) 100)
           users products = Some (finalCandidates, llmErr)
       \<and> snd (snd (bulkInsert (createMatches finalCandidates))) = Some e \<longrightarrow>
      ProcessNewUsers getByIDs getAllActive apiKey transport unmarshal bulkInsert userIDs
        = Some (None, Some (Wrap ''failed to save matches'' e)))"
proof (intro conjI impI)
  assume "getByIDs userIDs = Inl e"
  then show "ProcessNewUsers getByIDs getAllActive apiKey transport unmarshal bulkInsert userIDs
        = Some (None, Some (Wrap ''failed to get users'' e))"
    by (rule ProcessNewUsers_users_failure)
next
  assume "getByIDs userIDs = Inr users \<and> getAllActive = Inl e"
  then show "ProcessNewUsers getByIDs getAllActive apiKey transport unmarshal bulkInsert userIDs
        = Some (None, Some (Wrap ''failed to get products'' e))"
    using ProcessNewUsers_products_failure[of getByIDs userIDs users getAllActive e] by simp
next
  assume h: "getByIDs userIDs = Inr users \<and> getAllActive = Inr products
       \<and> llmCheck apiKey transport unmarshal
           (selectTopCandidates (logicFilter (sqlPrefilter users products) users products) 100)
           users products = Some (finalCandidates, llmErr)
       \<and> snd (snd (bulkInsert (createMatches finalCandidates))) = Some e"
  show "ProcessNewUsers getByIDs getAllActive apiKey transport unmarshal bulkInsert userIDs
        = Some (None, Some (Wrap ''failed to save matches'' e))"
    using h[THEN conjunct1] h[THEN conjunct2, THEN conjunct1]
      h[THEN conjunct2, THEN conjunct2, THEN conjunct1]
      h[THEN conjunct2, THEN conjunct2, THEN conjunct2]
    by (rule ProcessNewUsers_persist_failure[of getByIDs userIDs users getAllActive products
          apiKey transport unmarshal finalCandidates llmErr bulkInsert e])
qed

theorem ProcessNewUsers_outcomes_witness:
  "ProcessNewUsers failingGetByIDs (Inr [scenarioProduct]) [] failingTransport noUnmarshal
       failingBulkInsert [1]
     = Some (None, Some (Wrap ''failed to get users'' (Error ''connection refused'')))
   \<and> ProcessNewUsers workingGetByIDs (Inl (Error ''connection refused'')) [] failingTransport
       noUnmarshal failingBulkInsert [1]
     = Some (None, Some (Wrap ''failed to get products'' (Error ''connection refused'')))
   \<and> ProcessNewUsers workingGetByIDs (Inr [scenarioProduct]) [] failingTransport noUnmarshal
       failingBulkInsert [1]
     = Some (None, Some (Wrap ''failed to save matches'' (Error ''connection lost'')))"
proof -
  let ?top = "selectTopCandidates
        (logicFilter (sqlPrefilter [applicant] [scenarioProduct]) [applicant] [scenarioProduct])
        100"
  let ?final = "map (\<lambda>c. c\<lparr>c_LLMCheckPassed := True,
                      c_LLMReasoning := ''LLM check skipped - no API key configured'',
                      c_LLMConfidence := 0.7\<rparr>) ?top"
  have 1: "failingGetByIDs [1] = Inl (Error ''connection refused'')"
    by (simp add: failingGetByIDs_def)
  have 2: "workingGetByIDs [1] = Inr [applicant]"
    by (simp add: workingGetByIDs_def)
  have 3: "llmCheck [] failingTransport noUnmarshal ?top [applicant] [scenarioProduct]
             = Some (?final, None)"
    by (rule pipeline_without_api_key)
  have 4: "snd (snd (failingBulkInsert (createMatches ?final))) = Some (Error ''connection lost'')"
    by (simp add: failingBulkInsert_def)
  note T1 = ProcessNewUsers_outcomes[of failingGetByIDs "[1]" "Error ''connection refused''"
      "Inr [scenarioProduct]" "[]" failingTransport noUnmarshal failingBulkInsert]
  note T2 = ProcessNewUsers_outcomes[of workingGetByIDs "[1]" "Error ''connection refused''"
      "Inl (Error ''connection refused'')" "[]" failingTransport noUnmarshal failingBulkInsert
      "[applicant]"]
  note T3 = ProcessNewUsers_outcomes[of workingGetByIDs "[1]" "Error ''connection lost''"
      "Inr [scenarioProduct]" "[]" failingTransport noUnmarshal failingBulkInsert "[applicant]"
      "[scenarioProduct]" ?final None]
  have a:
    "ProcessNewUsers failingGetByIDs (Inr [scenarioProduct]) [] failingTransport noUnmarshal
       failingBulkInsert [1]
     = Some (None, Some (Wrap ''failed to get users'' (Error ''connection refused'')))"
    by (rule T1[THEN conjunct1, THEN mp, OF 1])
  have b:
    "ProcessNewUsers workingGetByIDs (Inl (Error ''connection refused'')) [] failingTransport
       noUnmarshal failingBulkInsert [1]
     = Some (None, Some (Wrap ''failed to get products'' (Error ''connection refused'')))"
    by (rule T2[THEN conjunct2, THEN conjunct1, THEN mp, OF conjI[OF 2 refl]])
  have c:
    "ProcessNewUsers workingGetByIDs (Inr [scenarioProduct]) [] failingTransport noUnmarshal
       failingBulkInsert [1]
     = Some (None, Some (Wrap ''failed to save matches'' (Error ''connection lost'')))"
    by (rule T3[THEN conjunct2, THEN conjunct2, THEN mp,
          OF conjI[OF 2 conjI[OF refl conjI[OF 3 4]]]])
  show ?thesis using a b c by simp
qed

text \<open>C9 as it was stated promises a summary on a fatal error. When the user repository
  fails, and when the persist step fails after Stage 1 passed one candidate, the summary
  pointer is nil.\<close>

theorem ProcessNewUsers_no_summary_counterexample:
  "ProcessNewUsers failingGetByIDs (Inr [scenarioProduct]) [] failingTransport noUnmarshal
       failingBulkInsert [1]
     = Some (None, Some (Wrap ''failed to get users'' (Error ''connection refused'')))
   \<and> length (sqlPrefilter [applicant] [scenarioProduct]) = 1
   \<and> ProcessNewUsers workingGetByIDs (Inr [scenarioProduct]) [] failingTransport noUnmarshal
       failingBulkInsert [1]
     = Some (None, Some (Wrap ''failed to save matches'' (Error ''connection lost'')))"
proof -
  let ?top = "selectTopCandidates
        (logicFilter (sqlPrefilter [applicant] [scenarioProduct]) [applicant] [scenarioProduct])
        100"
  let ?final = "map (\<lambda>c. c\<lparr>c_LLMCheckPassed := True,
                      c_LLMReasoning := ''LLM check skipped - no API key configured'',
                      c_LLMConfidence := 0.7\<rparr>) ?top"
  have a: "ProcessNewUsers failingGetByIDs (Inr [scenarioProduct]) [] failingTransport
             noUnmarshal failingBulkInsert [1]
     = Some (None, Some (Wrap ''failed to get users'' (Error ''connection refused'')))"
    by (rule ProcessNewUsers_users_failure) (simp add: failingGetByIDs_def)
  have b: "length (sqlPrefilter [applicant] [scenarioProduct]) = 1"
    by (simp add: sqlPrefilter_def sqlPrefilterBody_def flag_defs applicant_def
          scenarioProduct_def)
  have 3: "llmCheck [] failingTransport noUnmarshal ?top [applicant] [scenarioProduct]
             = Some (?final, None)"
    by (rule pipeline_without_api_key)
  have c: "ProcessNewUsers workingGetByIDs (Inr [scenarioProduct]) [] failingTransport
             noUnmarshal failingBulkInsert [1]
     = Some (None, Some (Wrap ''failed to save matches'' (Error ''connection lost'')))"
    by (rule ProcessNewUsers_persist_failure[OF _ _ 3])
       (simp_all add: workingGetByIDs_def failingBulkInsert_def)
  show ?thesis using a b c by simp
qed

end
